theory Spec2Isabelle
  imports Main
begin

section \<open>Message iteration of the Telegram client (telethon/_client/messages.py)\<close>

text \<open>
  The two iterators of \<^verbatim>\<open>messages.py\<close>, \<^verbatim>\<open>_MessagesIter\<close> and \<^verbatim>\<open>_IDsIter\<close>, are
  embedded as functions on records of their fields. The client they talk to (resolver,
  transport, the helpers of other modules) is a record of functions taken as a parameter;
  every call of it is written to a trace, so that what was sent, and in which order, is
  part of a result. An exception is a value of \<open>result\<close>.
\<close>

subsection \<open>Values\<close>

definition MAX_CHUNK_SIZE :: int where
  "MAX_CHUNK_SIZE = 100"

text \<open>Python numbers that may be \<^verbatim>\<open>float('inf')\<close>: limits, \<^verbatim>\<open>max_id\<close>, \<^verbatim>\<open>last_id\<close>.\<close>

datatype pynum = Fin int | Infinity

fun num_less :: "pynum \<Rightarrow> pynum \<Rightarrow> bool" where
  "num_less (Fin a) (Fin b) = (a < b)"
| "num_less (Fin a) Infinity = True"
| "num_less Infinity b = False"

fun num_le :: "pynum \<Rightarrow> pynum \<Rightarrow> bool" where
  "num_le (Fin a) (Fin b) = (a \<le> b)"
| "num_le a Infinity = True"
| "num_le Infinity (Fin b) = False"

text \<open>\<^verbatim>\<open>min(x, n)\<close> for an integer \<open>n\<close>: an integer again.\<close>

fun num_min :: "pynum \<Rightarrow> int \<Rightarrow> int" where
  "num_min (Fin a) n = min a n"
| "num_min Infinity n = n"

datatype error =
  ValueError | TypeError | AttributeError | MessageIdsEmptyError | RPCError string

text \<open>
  What a call returns: a value, an exception, or \<^verbatim>\<open>StopAsyncIteration\<close>, which ends the
  iteration and is not an error. \<open>Stop\<close> carries \<^verbatim>\<open>self.total\<close> as it is when raised.
\<close>

datatype 'a result = Return 'a | Raise error | Stop "int option"

datatype entity_type = USER | CHAT | CHANNEL

datatype input_peer =
  InputPeerEmpty | InputPeerSelf | InputPeerUser int | InputPeerChat int | InputPeerChannel int

datatype peer = PeerUser int | PeerChat int | PeerChannel int

text \<open>
  \<^verbatim>\<open>hints.EntityLike\<close>: what a caller may pass for a chat. \<^verbatim>\<open>if entity:\<close> is Python
  truthiness: \<^verbatim>\<open>None\<close>, \<^verbatim>\<open>0\<close> and \<^verbatim>\<open>''\<close> are false, an object is true.
\<close>

datatype entity_like = EntityId int | EntityName string | EntityPeer input_peer

fun truthy_entity :: "entity_like option \<Rightarrow> bool" where
  "truthy_entity None = False"
| "truthy_entity (Some (EntityId n)) = (n \<noteq> 0)"
| "truthy_entity (Some (EntityName s)) = (s \<noteq> [])"
| "truthy_entity (Some (EntityPeer p)) = True"

text \<open>\<^verbatim>\<open>hints.DateLike\<close>: a datetime object (always true) or a number (true unless zero).\<close>

datatype date_like = Datetime int | Timestamp int

fun truthy_date :: "date_like option \<Rightarrow> bool" where
  "truthy_date None = False"
| "truthy_date (Some (Datetime d)) = True"
| "truthy_date (Some (Timestamp t)) = (t \<noteq> 0)"

text \<open>A raw message of a response: \<^verbatim>\<open>MessageEmpty\<close> or a message with content.\<close>

datatype tl_message =
  MessageEmpty (msg_id: int)
| Message (msg_id: int) (peer_id: peer) (sender_id: "int option") (date: int)

fun isinstance_MessageEmpty :: "tl_message \<Rightarrow> bool" where
  "isinstance_MessageEmpty (MessageEmpty i) = True"
| "isinstance_MessageEmpty (Message i p s d) = False"

text \<open>
  The responses \<^verbatim>\<open>messages.Messages\<close> (no \<^verbatim>\<open>count\<close>), \<^verbatim>\<open>MessagesSlice\<close>,
  \<^verbatim>\<open>ChannelMessages\<close> and \<^verbatim>\<open>MessagesNotModified\<close> (a \<^verbatim>\<open>count\<close> and no
  \<^verbatim>\<open>messages\<close>); a slice may carry a \<^verbatim>\<open>next_rate\<close>. The users and chats of a response only
  decorate the produced items and are left out.
\<close>

datatype response =
  Messages "tl_message list"
| MessagesSlice int "int option" "tl_message list"
| ChannelMessages int "tl_message list"
| MessagesNotModified int

text \<open>\<^verbatim>\<open>r.messages\<close>: an \<^verbatim>\<open>AttributeError\<close> on \<^verbatim>\<open>MessagesNotModified\<close>.\<close>

fun messages_of :: "response \<Rightarrow> tl_message list option" where
  "messages_of (Messages ms) = Some ms"
| "messages_of (MessagesSlice c nr ms) = Some ms"
| "messages_of (ChannelMessages c ms) = Some ms"
| "messages_of (MessagesNotModified c) = None"

text \<open>The attribute \<^verbatim>\<open>count\<close>, when the response has one.\<close>

fun count_of :: "response \<Rightarrow> int option" where
  "count_of (Messages ms) = None"
| "count_of (MessagesSlice c nr ms) = Some c"
| "count_of (ChannelMessages c ms) = Some c"
| "count_of (MessagesNotModified c) = Some c"

text \<open>
  \<^verbatim>\<open>getattr(r, 'count', len(r.messages))\<close>: the default is evaluated first, so a
  response without \<^verbatim>\<open>messages\<close> raises.
\<close>

definition getattr_count :: "response \<Rightarrow> int result" where
  "getattr_count r =
     (case messages_of r of
        None \<Rightarrow> Raise AttributeError
      | Some ms \<Rightarrow> (case count_of r of None \<Rightarrow> Return (int (length ms)) | Some c \<Rightarrow> Return c))"

text \<open>\<^verbatim>\<open>getattr(response, 'next_rate', 0)\<close>.\<close>

fun getattr_next_rate :: "response \<Rightarrow> int option" where
  "getattr_next_rate (MessagesSlice c nr ms) = nr"
| "getattr_next_rate r = Some 0"

text \<open>The date of a produced message.\<close>

fun date_of :: "tl_message \<Rightarrow> date_like option" where
  "date_of (MessageEmpty i) = None"
| "date_of (Message i p s d) = Some (Datetime d)"

subsection \<open>Requests\<close>

datatype msg_filter = InputMessagesFilterEmpty | InputMessagesFilter string

text \<open>The \<^verbatim>\<open>filter\<close> argument: a filter class or an instance of one.\<close>

datatype filter_arg = FilterType msg_filter | FilterInstance msg_filter

datatype req_type = SearchGlobal | GetScheduledHistory | GetReplies | Search | GetHistory

text \<open>
  A request object of the range iterator: its class and its attributes. An attribute the
  class does not have is \<open>None\<close> in \<open>req_offset_id\<close>, \<open>req_add_offset\<close> and
  \<open>req_limit\<close>, the three attributes the iterator reads back; assigning to one stores it
  on the object, as Python does. \<open>req_date\<close> is \<^verbatim>\<open>max_date\<close> of the two searches
  and \<^verbatim>\<open>offset_date\<close> of the others; \<open>req_offset_date\<close> is only there for
  \<^verbatim>\<open>SearchGlobal\<close>, where \<^verbatim>\<open>_update_offset\<close> assigns an \<^verbatim>\<open>offset_date\<close> beside it.
\<close>

record request =
  req_type :: req_type
  req_peer :: "input_peer option"
  req_raw_peer :: "entity_like option"
  req_q :: "string option"
  req_filter :: "msg_filter option"
  req_date :: "date_like option"
  req_offset_date :: "date_like option"
  req_offset_rate :: "int option"
  req_offset_peer :: "input_peer option"
  req_offset_id :: "int option"
  req_add_offset :: "int option"
  req_limit :: "int option"
  req_msg_id :: "int option"
  req_from_id :: "input_peer option"

text \<open>The two lookups by identifier.\<close>

datatype ids_request =
  ChannelsGetMessages "input_peer option" "int list"
| MessagesGetMessages "int list"

subsection \<open>The client\<close>

text \<open>
  Everything the iterators call on \<^verbatim>\<open>self.client\<close>, and \<^verbatim>\<open>helpers._entity_type\<close>, whose
  module is not part of these sources. \<open>call\<close> and \<open>call_ids\<close> are
  \<^verbatim>\<open>await self.client(request)\<close> at the two families of requests, \<open>iter_messages\<close>
  is \<^verbatim>\<open>self.client.iter_messages(entity, limit, offset_date=...)\<close> run to its end, and
  \<open>input_chat\<close> is the attribute of that name of a produced message.
\<close>

record client =
  get_input_entity :: "entity_like \<Rightarrow> error + input_peer"
  get_peer_id :: "input_peer \<Rightarrow> error + int"
  get_peer :: "input_peer \<Rightarrow> error + peer"
  entity_type :: "input_peer \<Rightarrow> error + entity_type"
  call :: "request \<Rightarrow> error + response"
  call_ids :: "ids_request \<Rightarrow> error + response"
  input_chat :: "tl_message \<Rightarrow> input_peer option"
  iter_messages :: "input_peer \<Rightarrow> int \<Rightarrow> date_like option \<Rightarrow> error + tl_message list"

datatype event =
  GetInputEntity entity_like
| GetPeerId input_peer
| GetPeer input_peer
| Call request
| CallIds ids_request
| IterMessages input_peer int "date_like option"

text \<open>A computation: the calls it made, in order, and how it ended.\<close>

type_synonym 'a io = "event list \<times> 'a result"

definition bind :: "'a io \<Rightarrow> ('a \<Rightarrow> 'b io) \<Rightarrow> 'b io" where
  "bind m f =
     (case m of
        (tr, Return a) \<Rightarrow> (case f a of (tr', r) \<Rightarrow> (tr @ tr', r))
      | (tr, Raise e) \<Rightarrow> (tr, Raise e)
      | (tr, Stop t) \<Rightarrow> (tr, Stop t))"

definition await :: "event \<Rightarrow> error + 'a \<Rightarrow> 'a io" where
  "await ev r = ([ev], case r of Inl e \<Rightarrow> Raise e | Inr a \<Rightarrow> Return a)"

subsection \<open>The fields of \<^verbatim>\<open>RequestIter\<close>\<close>

text \<open>
  The base class is in \<^verbatim>\<open>requestiter.py\<close>, which is not part of these sources; its fields
  are what the two subclasses read and write.
\<close>

record 'item request_iter =
  limit :: pynum
  left :: pynum
  reverse :: bool
  wait_time :: "int option"
  total_count :: "int option"
  buffer :: "'item list"

subsection \<open>\<^verbatim>\<open>_IDsIter\<close>\<close>

record ids_iter = "tl_message option request_iter" +
  p_ids :: "int list"
  p_offset :: nat
  p_entity :: "input_peer option"
  p_ty :: "entity_type option"

text \<open>\<^verbatim>\<open>_IDsIter._init\<close> (lines 267-276).\<close>

definition IDsIter_init ::
  "client \<Rightarrow> tl_message option request_iter \<Rightarrow> entity_like option \<Rightarrow> int list \<Rightarrow> ids_iter io"
where
  "IDsIter_init cl it entity ids =
     bind (if truthy_entity entity
           then bind (await (GetInputEntity (the entity)) (get_input_entity cl (the entity)))
                  (\<lambda>p. ([], Return (Some p)))
           else ([], Return None))
       (\<lambda>ent.
     bind (case ent of
             None \<Rightarrow> ([], Return None)
           | Some p \<Rightarrow>
               (case entity_type cl p of
                  Inl e \<Rightarrow> ([], Raise e)
                | Inr t \<Rightarrow> ([], Return (Some t))))
       (\<lambda>ty.
     ([], Return
       (request_iter.extend
          (it\<lparr>total_count := Some (int (length ids)),
              wait_time := (case wait_time it of
                              None \<Rightarrow> Some (if num_less (Fin 300) (limit it) then 10 else 0)
                            | Some w \<Rightarrow> Some w)\<rparr>)
          \<lparr>p_ids = (if reverse it then rev ids else ids),
           p_offset = 0,
           p_entity = ent,
           p_ty = ty\<rparr>))))"

text \<open>
  The loop of lines 313-318: a slot per returned message. \<open>from_id\<close> is the peer to check
  against, when there is one.
\<close>

fun ids_slots :: "peer option \<Rightarrow> tl_message list \<Rightarrow> tl_message option list" where
  "ids_slots from_id [] = []"
| "ids_slots from_id (m # ms) =
     (if isinstance_MessageEmpty m \<or> (from_id \<noteq> None \<and> Some (peer_id m) \<noteq> from_id)
      then None # ids_slots from_id ms
      else Some m # ids_slots from_id ms)"

text \<open>
  \<^verbatim>\<open>_IDsIter._load_next_chunk\<close> (lines 278-318). The slice of line 279 is
  \<open>take 100 (drop offset ids)\<close>; only the channel lookup is wrapped in
  \<^verbatim>\<open>try ... except MessageIdsEmptyError\<close>.
\<close>

definition IDsIter_load_next_chunk :: "client \<Rightarrow> ids_iter \<Rightarrow> ids_iter io" where
  "IDsIter_load_next_chunk cl st =
     (let ids = take (nat MAX_CHUNK_SIZE) (drop (p_offset st) (p_ids st)) in
      if ids = [] then ([], Stop (total_count st))
      else
        let st1 = st\<lparr>p_offset := p_offset st + nat MAX_CHUNK_SIZE\<rparr> in
        bind (if p_ty st1 = Some CHANNEL
              then (let rq = ChannelsGetMessages (p_entity st1) ids in
                    case call_ids cl rq of
                      Inl MessageIdsEmptyError \<Rightarrow>
                        ([CallIds rq], Return (MessagesNotModified (int (length ids)), None))
                    | Inl e \<Rightarrow> ([CallIds rq], Raise e)
                    | Inr r \<Rightarrow> ([CallIds rq], Return (r, None)))
              else bind (await (CallIds (MessagesGetMessages ids))
                           (call_ids cl (MessagesGetMessages ids)))
                     (\<lambda>r. case p_entity st1 of
                             None \<Rightarrow> ([], Return (r, None))
                           | Some p \<Rightarrow>
                               bind (await (GetPeer p) (get_peer cl p))
                                 (\<lambda>f. ([], Return (r, Some f)))))
          (\<lambda>(r, from_id).
             case messages_of r of
               None \<Rightarrow> ([], Return (st1\<lparr>buffer := buffer st1 @ map (\<lambda>_. None) ids\<rparr>))
             | Some ms \<Rightarrow> ([], Return (st1\<lparr>buffer := buffer st1 @ ids_slots from_id ms\<rparr>))))"

subsection \<open>\<^verbatim>\<open>_MessagesIter\<close>\<close>

record messages_iter = "tl_message request_iter" +
  entity :: "input_peer option"
  from_id :: "int option"
  request :: request
  add_offset :: int
  max_id :: pynum
  min_id :: int
  last_id :: pynum

text \<open>The keyword arguments of \<^verbatim>\<open>_MessagesIter._init\<close> (lines 20-24).\<close>

record init_kwargs =
  kw_entity :: "entity_like option"
  kw_offset_id :: int
  kw_min_id :: int
  kw_max_id :: int
  kw_from_user :: "entity_like option"
  kw_offset_date :: "date_like option"
  kw_add_offset :: int
  kw_filter :: "filter_arg option"
  kw_search :: "string option"
  kw_reply_to :: "int option"
  kw_scheduled :: bool

text \<open>The defaults of \<^verbatim>\<open>get_messages\<close> (lines 321-339), as it passes them on in lines 353-369.\<close>

definition default_kwargs :: init_kwargs where
  "default_kwargs =
     \<lparr>kw_entity = None, kw_offset_id = 0, kw_min_id = 0, kw_max_id = 0, kw_from_user = None,
      kw_offset_date = None, kw_add_offset = 0, kw_filter = None, kw_search = None,
      kw_reply_to = None, kw_scheduled = False\<rparr>"

text \<open>Lines 26-31: the target peer; a global search cannot go in reverse.\<close>

definition init_entity :: "client \<Rightarrow> bool \<Rightarrow> entity_like option \<Rightarrow> input_peer option io" where
  "init_entity cl rv ent =
     (if truthy_entity ent
      then bind (await (GetInputEntity (the ent)) (get_input_entity cl (the ent)))
             (\<lambda>p. ([], Return (Some p)))
      else if rv then ([], Raise ValueError)
      else ([], Return None))"

text \<open>
  Lines 38-50: the offset identifier and \<^verbatim>\<open>max_id\<close> after the window check, or
  \<^verbatim>\<open>StopAsyncIteration\<close>. \<open>t\<close> is \<^verbatim>\<open>self.total\<close>; \<^verbatim>\<open>if offset_id and max_id\<close> tests
  both for zero.
\<close>

definition init_window :: "int option \<Rightarrow> bool \<Rightarrow> int \<Rightarrow> int \<Rightarrow> int \<Rightarrow> (int \<times> pynum) io" where
  "init_window t rv offset_id mn mx =
     (if rv then
        (let offset_id1 = max offset_id mn in
         if offset_id1 \<noteq> 0 \<and> mx \<noteq> 0 \<and> mx - offset_id1 \<le> 1 then ([], Stop t)
         else ([], Return (offset_id1, if mx = 0 then Infinity else Fin mx)))
      else
        (let offset_id1 = max offset_id mx in
         if offset_id1 \<noteq> 0 \<and> mn \<noteq> 0 \<and> offset_id1 - mn \<le> 1 then ([], Stop t)
         else ([], Return (offset_id1, Fin mx))))"

text \<open>Lines 52-58.\<close>

definition init_reverse_offset :: "bool \<Rightarrow> int \<Rightarrow> date_like option \<Rightarrow> int" where
  "init_reverse_offset rv offset_id offset_date =
     (if rv then
        (if offset_id \<noteq> 0 then offset_id + 1
         else if \<not> truthy_date offset_date then 1
         else offset_id)
      else offset_id)"

text \<open>
  Lines 60-64: the resolved \<^verbatim>\<open>from_user\<close> and \<^verbatim>\<open>self.from_id\<close>. A false
  \<^verbatim>\<open>from_user\<close> stays as it is in the code and is \<open>None\<close> here.
\<close>

definition init_from_user ::
  "client \<Rightarrow> entity_like option \<Rightarrow> (input_peer option \<times> int option) io"
where
  "init_from_user cl from_user =
     (if truthy_entity from_user
      then bind (await (GetInputEntity (the from_user)) (get_input_entity cl (the from_user)))
             (\<lambda>p. bind (await (GetPeerId p) (get_peer_id cl p))
                (\<lambda>i. ([], Return (Some p, Some i))))
      else ([], Return (None, None)))"

text \<open>Lines 72-75.\<close>

fun init_filter :: "filter_arg option \<Rightarrow> msg_filter" where
  "init_filter None = InputMessagesFilterEmpty"
| "init_filter (Some (FilterType f)) = f"
| "init_filter (Some (FilterInstance f)) = f"

text \<open>\<^verbatim>\<open>search or ''\<close> and \<^verbatim>\<open>not search\<close>.\<close>

fun search_or_empty :: "string option \<Rightarrow> string" where
  "search_or_empty None = []"
| "search_or_empty (Some s) = s"

fun not_search :: "string option \<Rightarrow> bool" where
  "not_search None = True"
| "not_search (Some s) = (s = [])"

definition no_request :: request where
  "no_request =
     \<lparr>req_type = GetHistory, req_peer = None, req_raw_peer = None, req_q = None,
      req_filter = None, req_date = None, req_offset_date = None, req_offset_rate = None,
      req_offset_peer = None, req_offset_id = None, req_add_offset = None, req_limit = None,
      req_msg_id = None, req_from_id = None\<rparr>"

text \<open>The loop of lines 141-143 over what the probe produced.\<close>

fun probe_offset :: "request \<Rightarrow> tl_message list \<Rightarrow> request" where
  "probe_offset rq [] = rq"
| "probe_offset rq (m # ms) = probe_offset (rq\<lparr>req_offset_id := Some (msg_id m + 1)\<rparr>) ms"

text \<open>
  Lines 77-154: the request and \<^verbatim>\<open>self.from_id\<close>. \<open>ent\<close> is \<^verbatim>\<open>self.entity\<close>, \<open>raw\<close>
  the \<^verbatim>\<open>entity\<close> argument, \<open>from_user\<close> the resolved sender, \<open>flt\<close> the filter
  instance.
\<close>

definition init_request ::
  "client \<Rightarrow> input_peer option \<Rightarrow> entity_like option \<Rightarrow> input_peer option \<Rightarrow> int option \<Rightarrow>
   int \<Rightarrow> date_like option \<Rightarrow> int \<Rightarrow> msg_filter \<Rightarrow> string option \<Rightarrow> int option \<Rightarrow> bool \<Rightarrow>
   (request \<times> int option) io"
where
  "init_request cl ent raw from_user fid offset_id offset_date add_off flt search reply_to scheduled =
     (if ent = None then
        ([], Return
          (no_request\<lparr>req_type := SearchGlobal, req_q := Some (search_or_empty search),
             req_filter := Some flt, req_date := offset_date, req_offset_rate := Some 0,
             req_offset_peer := Some InputPeerEmpty, req_offset_id := Some offset_id,
             req_limit := Some 1\<rparr>, fid))
      else if scheduled then
        ([], Return (no_request\<lparr>req_type := GetScheduledHistory, req_raw_peer := raw\<rparr>, fid))
      else if reply_to \<noteq> None then
        ([], Return
          (no_request\<lparr>req_type := GetReplies, req_peer := ent, req_msg_id := reply_to,
             req_offset_id := Some offset_id, req_date := offset_date,
             req_add_offset := Some add_off, req_limit := Some 1\<rparr>, fid))
      else if search \<noteq> None \<or> flt \<noteq> InputMessagesFilterEmpty \<or> from_user \<noteq> None then
        (case entity_type cl (the ent) of
           Inl e \<Rightarrow> ([], Raise e)
         | Inr ty \<Rightarrow>
             (let from_user1 = (if ty = USER then None else from_user);
                  fid1 = (if ty = USER then fid else None);
                  rq = no_request\<lparr>req_type := Search, req_peer := ent,
                         req_q := Some (search_or_empty search), req_filter := Some flt,
                         req_date := offset_date, req_offset_id := Some offset_id,
                         req_add_offset := Some add_off, req_limit := Some 0,
                         req_from_id := from_user1\<rparr>
              in if flt \<noteq> InputMessagesFilterEmpty \<and> truthy_date offset_date
                    \<and> not_search search \<and> offset_id = 0
                 then bind (await (IterMessages (the ent) 1 offset_date)
                              (iter_messages cl (the ent) 1 offset_date))
                        (\<lambda>ms. ([], Return (probe_offset rq ms, fid1)))
                 else ([], Return (rq, fid1))))
      else
        ([], Return
          (no_request\<lparr>req_type := GetHistory, req_peer := ent, req_limit := Some 1,
             req_date := offset_date, req_offset_id := Some offset_id,
             req_add_offset := Some add_off\<rparr>, fid)))"

text \<open>Lines 156-162: with no item to produce, one request for the total.\<close>

definition init_total :: "client \<Rightarrow> request \<Rightarrow> int io" where
  "init_total cl rq =
     bind (await (Call rq) (call cl rq))
       (\<lambda>r. case r of
               MessagesNotModified c \<Rightarrow> ([], Return c)
             | _ \<Rightarrow> ([], getattr_count r))"

text \<open>Lines 170-171: \<^verbatim>\<open>self.request.add_offset -= _MAX_CHUNK_SIZE\<close> reads the attribute.\<close>

definition init_add_offset :: "bool \<Rightarrow> request \<Rightarrow> request io" where
  "init_add_offset rv rq =
     (if rv then
        (case req_add_offset rq of
           None \<Rightarrow> ([], Raise AttributeError)
         | Some a \<Rightarrow> ([], Return (rq\<lparr>req_add_offset := Some (a - MAX_CHUNK_SIZE)\<rparr>)))
      else ([], Return rq))"

text \<open>\<^verbatim>\<open>_MessagesIter._init\<close> (lines 20-176).\<close>

definition MessagesIter_init ::
  "client \<Rightarrow> tl_message request_iter \<Rightarrow> init_kwargs \<Rightarrow> messages_iter io"
where
  "MessagesIter_init cl it kw =
     bind (init_entity cl (reverse it) (kw_entity kw)) (\<lambda>ent0.
     bind (init_window (total_count it) (reverse it) (kw_offset_id kw) (kw_min_id kw) (kw_max_id kw))
       (\<lambda>(offset_id1, mx).
     let offset_id2 = init_reverse_offset (reverse it) offset_id1 (kw_offset_date kw) in
     bind (init_from_user cl (kw_from_user kw)) (\<lambda>(from_user, fid).
     let ent = (if ent0 = None \<and> from_user \<noteq> None then Some InputPeerEmpty else ent0) in
     bind (init_request cl ent (kw_entity kw) from_user fid offset_id2 (kw_offset_date kw)
             (kw_add_offset kw) (init_filter (kw_filter kw)) (kw_search kw) (kw_reply_to kw)
             (kw_scheduled kw))
       (\<lambda>(rq, fid1).
     if num_le (limit it) (Fin 0) then bind (init_total cl rq) (\<lambda>t. ([], Stop (Some t)))
     else
       bind (init_add_offset (reverse it) rq) (\<lambda>rq1.
       ([], Return
         (request_iter.extend
            (it\<lparr>wait_time := (case wait_time it of
                                None \<Rightarrow> Some (if num_less (Fin 3000) (limit it) then 1 else 0)
                              | Some w \<Rightarrow> Some w)\<rparr>)
            \<lparr>entity = ent, from_id = fid1, request = rq1, add_offset = kw_add_offset kw,
             max_id = mx, min_id = kw_min_id kw,
             last_id = (if reverse it then Fin 0 else Infinity)\<rparr>)))))))"

text \<open>
  \<^verbatim>\<open>self.entity\<close> where a request for a peer is built (line 77 on): the target peer as
  the client resolved it or, with no target peer but a sender to filter by,
  \<^verbatim>\<open>InputPeerEmpty\<close> (lines 69-70).
\<close>

definition selected_peer :: "client \<Rightarrow> init_kwargs \<Rightarrow> input_peer \<Rightarrow> bool" where
  "selected_peer cl kw p =
     (if truthy_entity (kw_entity kw) then get_input_entity cl (the (kw_entity kw)) = Inr p
      else p = InputPeerEmpty)"

text \<open>\<^verbatim>\<open>_MessagesIter._message_in_range\<close> (lines 222-236).\<close>

definition message_in_range :: "messages_iter \<Rightarrow> tl_message \<Rightarrow> bool" where
  "message_in_range st message =
     (if entity st \<noteq> None then
        (if reverse st then
           (if num_le (Fin (msg_id message)) (last_id st) \<or> num_le (max_id st) (Fin (msg_id message))
            then False else True)
         else
           (if num_le (last_id st) (Fin (msg_id message)) \<or> msg_id message \<le> min_id st
            then False else True))
      else True)"

text \<open>\<^verbatim>\<open>_MessagesIter._update_offset\<close> (lines 238-263).\<close>

definition update_offset :: "client \<Rightarrow> messages_iter \<Rightarrow> tl_message \<Rightarrow> response \<Rightarrow> messages_iter" where
  "update_offset cl st last_message resp =
     (let rq1 = (request st)\<lparr>req_offset_id :=
                   Some (if reverse st then msg_id last_message + 1 else msg_id last_message)\<rparr>;
          rq2 = (if req_type rq1 = Search then rq1\<lparr>req_date := None\<rparr>
                 else if req_type rq1 = SearchGlobal \<or> req_type rq1 = GetScheduledHistory
                 then rq1\<lparr>req_offset_date := date_of last_message\<rparr>
                 else rq1\<lparr>req_date := date_of last_message\<rparr>);
          rq3 = (if req_type rq2 = SearchGlobal
                 then rq2\<lparr>req_offset_peer :=
                            (case input_chat cl last_message of
                               None \<Rightarrow> Some InputPeerEmpty
                             | Some c \<Rightarrow> Some c),
                          req_offset_rate := getattr_next_rate resp\<rparr>
                 else rq2)
      in st\<lparr>request := rq3\<rparr>)"

text \<open>
  The loop of lines 191-204 over the messages of a response: the state after it, and
  whether it left the function with \<^verbatim>\<open>return True\<close>.
\<close>

fun scan_messages :: "messages_iter \<Rightarrow> tl_message list \<Rightarrow> messages_iter \<times> bool" where
  "scan_messages st [] = (st, False)"
| "scan_messages st (message # ms) =
     (if isinstance_MessageEmpty message
         \<or> (from_id st \<noteq> None \<and> from_id st \<noteq> Some 0 \<and> sender_id message \<noteq> from_id st)
      then scan_messages st ms
      else if \<not> message_in_range st message then (st, True)
      else scan_messages
             (st\<lparr>last_id := Fin (msg_id message), buffer := buffer st @ [message]\<rparr>) ms)"

text \<open>Lines 179-182: the request of the next chunk.\<close>

definition chunk_request :: "messages_iter \<Rightarrow> request" where
  "chunk_request st =
     (let n = num_min (left st) MAX_CHUNK_SIZE;
          rq = (request st)\<lparr>req_limit := Some n\<rparr>
      in if reverse st \<and> n \<noteq> MAX_CHUNK_SIZE
         then rq\<lparr>req_add_offset := Some (add_offset st - n)\<rparr>
         else rq)"

text \<open>
  \<^verbatim>\<open>_MessagesIter._load_next_chunk\<close> (lines 178-220): the state after it, and whether it
  returned \<^verbatim>\<open>True\<close> (this was the last chunk).
\<close>

definition MessagesIter_load_next_chunk ::
  "client \<Rightarrow> messages_iter \<Rightarrow> (messages_iter \<times> bool) io"
where
  "MessagesIter_load_next_chunk cl st =
     (let st1 = st\<lparr>request := chunk_request st\<rparr> in
      bind (await (Call (request st1)) (call cl (request st1))) (\<lambda>r.
      case messages_of r of
        None \<Rightarrow> ([], Raise AttributeError)
      | Some ms \<Rightarrow>
          (let st2 = st1\<lparr>total_count :=
                       Some (case count_of r of None \<Rightarrow> int (length ms) | Some c \<Rightarrow> c)\<rparr>;
               (st3, returned) = scan_messages st2 (if reverse st2 then rev ms else ms)
           in if returned then ([], Return (st3, True))
              else if int (length ms) < the (req_limit (request st3)) then ([], Return (st3, True))
              else if buffer st3 \<noteq> []
              then ([], Return (update_offset cl st3 (last (buffer st3)) r, False))
              else ([], Return (st3, True)))))"

text \<open>
  A traversal: chunk after chunk, until one is the last or a call fails. Between two
  chunks the base class hands out the buffered items, empties the buffer and lowers
  \<^verbatim>\<open>self.left\<close>; that class is not part of these sources, so each step of the script
  gives the client that answers the chunk and the value of \<^verbatim>\<open>self.left\<close> before it. The
  result is every item the chunks put into the buffer, in order; what the caller sees
  is a prefix of it.
\<close>

fun traverse :: "messages_iter \<Rightarrow> (client \<times> pynum) list \<Rightarrow> tl_message list" where
  "traverse st [] = []"
| "traverse st ((cl, l) # script) =
     (case MessagesIter_load_next_chunk cl (st\<lparr>buffer := [], left := l\<rparr>) of
        (tr, Return (st1, returned)) \<Rightarrow>
          (if returned then buffer st1 else buffer st1 @ traverse st1 script)
      | (tr, Raise e) \<Rightarrow> []
      | (tr, Stop t) \<Rightarrow> [])"

subsection \<open>What the specification says, in its own words\<close>

text \<open>The request variants as the specification names them.\<close>

datatype variant = GlobalSearch | ScheduledList | ThreadReplies | FilteredSearch | PlainHistory

fun variant_of :: "req_type \<Rightarrow> variant" where
  "variant_of SearchGlobal = GlobalSearch"
| "variant_of GetScheduledHistory = ScheduledList"
| "variant_of GetReplies = ThreadReplies"
| "variant_of Search = FilteredSearch"
| "variant_of GetHistory = PlainHistory"

text \<open>A filter was given and it is not the empty filter.\<close>

fun nonempty_filter :: "filter_arg option \<Rightarrow> bool" where
  "nonempty_filter None = False"
| "nonempty_filter (Some (FilterType f)) = (f \<noteq> InputMessagesFilterEmpty)"
| "nonempty_filter (Some (FilterInstance f)) = (f \<noteq> InputMessagesFilterEmpty)"

text \<open>
  The precedence of the specification: (1) no target peer and no \<open>from\<close> filter, (2) the
  scheduled flag, (3) a \<open>replyTo\<close>, (4) a text query, a non-empty filter or a \<open>from\<close>
  filter, (5) otherwise.
\<close>

definition spec_variant :: "init_kwargs \<Rightarrow> variant" where
  "spec_variant kw =
     (if \<not> truthy_entity (kw_entity kw) \<and> \<not> truthy_entity (kw_from_user kw) then GlobalSearch
      else if kw_scheduled kw then ScheduledList
      else if kw_reply_to kw \<noteq> None then ThreadReplies
      else if kw_search kw \<noteq> None \<or> nonempty_filter (kw_filter kw)
              \<or> truthy_entity (kw_from_user kw) then FilteredSearch
      else PlainHistory)"

text \<open>
  The offset the window is anchored at, \<open>max(offsetId, boundId)\<close> with the bound of the
  direction, and the window it leaves up to the opposite bound: collapsed when both are
  set and at most one apart.
\<close>

definition anchor_offset :: "bool \<Rightarrow> init_kwargs \<Rightarrow> int" where
  "anchor_offset rv kw =
     (if rv then max (kw_offset_id kw) (kw_min_id kw) else max (kw_offset_id kw) (kw_max_id kw))"

definition window_collapsed :: "bool \<Rightarrow> init_kwargs \<Rightarrow> bool" where
  "window_collapsed rv kw =
     (if rv
      then anchor_offset rv kw \<noteq> 0 \<and> kw_max_id kw \<noteq> 0 \<and> kw_max_id kw - anchor_offset rv kw \<le> 1
      else anchor_offset rv kw \<noteq> 0 \<and> kw_min_id kw \<noteq> 0 \<and> anchor_offset rv kw - kw_min_id kw \<le> 1)"

text \<open>The count a response reports, or the number of its messages when it reports none.\<close>

definition reported_total :: "response \<Rightarrow> int" where
  "reported_total r =
     (case count_of r of
        Some c \<Rightarrow> c
      | None \<Rightarrow> (case messages_of r of Some ms \<Rightarrow> int (length ms) | None \<Rightarrow> 0))"

text \<open>The calls of a trace that went to the transport as a request of the iterator.\<close>

fun sent :: "event list \<Rightarrow> request list" where
  "sent [] = []"
| "sent (Call rq # tr) = rq # sent tr"
| "sent (ev # tr) = sent tr"

subsection \<open>A client for the examples\<close>

text \<open>
  A resolver that knows every reference as the user 1 (or the peer itself), and a
  transport that answers every lookup with the messages 10 and 12.
\<close>

definition msg :: "int \<Rightarrow> tl_message" where
  "msg i = Message i (PeerUser 1) (Some 1) 0"

definition demo_client :: client where
  "demo_client =
     \<lparr>get_input_entity = (\<lambda>e. case e of EntityPeer p \<Rightarrow> Inr p | _ \<Rightarrow> Inr (InputPeerUser 1)),
      get_peer_id = (\<lambda>p. Inr 1),
      get_peer = (\<lambda>p. Inr (PeerUser 1)),
      entity_type = (\<lambda>p. case p of
                            InputPeerEmpty \<Rightarrow> Inl TypeError
                          | InputPeerChat c \<Rightarrow> Inr CHAT
                          | InputPeerChannel c \<Rightarrow> Inr CHANNEL
                          | _ \<Rightarrow> Inr USER),
      call = (\<lambda>rq. Inr (Messages [])),
      call_ids = (\<lambda>rq. Inr (Messages [msg 10, msg 12])),
      input_chat = (\<lambda>m. None),
      iter_messages = (\<lambda>p n d. Inr [])\<rparr>"

definition new_iter :: "pynum \<Rightarrow> bool \<Rightarrow> 'item request_iter" where
  "new_iter lim rev_flag =
     \<lparr>limit = lim, left = lim, reverse = rev_flag, wait_time = None,
      total_count = None, buffer = []\<rparr>"

text \<open>A chat, a filter, and transports with fixed answers.\<close>

definition chat :: "entity_like option" where
  "chat = Some (EntityId 5)"

definition photos :: "filter_arg option" where
  "photos = Some (FilterType (InputMessagesFilter ''photos''))"

definition answering :: "tl_message list \<Rightarrow> client" where
  "answering ms = demo_client\<lparr>call := (\<lambda>rq. Inr (Messages ms))\<rparr>"

definition rejecting_client :: client where
  "rejecting_client = demo_client\<lparr>call_ids := (\<lambda>rq. Inl MessageIdsEmptyError)\<rparr>"

text \<open>An iterator over the identifiers 10, 11, 12, after \<^verbatim>\<open>_init\<close>.\<close>

definition ids_example :: "input_peer option \<Rightarrow> entity_type option \<Rightarrow> ids_iter" where
  "ids_example ent ty =
     request_iter.extend
       ((new_iter (Fin 3) False)\<lparr>total_count := Some 3, wait_time := Some 0\<rparr>)
       \<lparr>p_ids = [10, 11, 12], p_offset = 0, p_entity = ent, p_ty = ty\<rparr>"

text \<open>Construction followed by the first chunk.\<close>

definition first_chunk :: "client \<Rightarrow> tl_message request_iter \<Rightarrow> init_kwargs \<Rightarrow> (messages_iter \<times> bool) io" where
  "first_chunk cl it kw = bind (MessagesIter_init cl it kw) (MessagesIter_load_next_chunk cl)"

text \<open>A global search with \<open>min_id = 6\<close>, after \<^verbatim>\<open>_init\<close>.\<close>

definition global_example :: messages_iter where
  "global_example =
     request_iter.extend ((new_iter (Fin 30) False)\<lparr>wait_time := Some 0\<rparr>)
       \<lparr>entity = None, from_id = None,
        request = no_request\<lparr>req_type := SearchGlobal, req_q := Some [],
          req_filter := Some InputMessagesFilterEmpty, req_offset_rate := Some 0,
          req_offset_peer := Some InputPeerEmpty, req_offset_id := Some 0, req_limit := Some 1\<rparr>,
        add_offset = 0, max_id = Fin 0, min_id = 6, last_id = Infinity\<rparr>"






definition bounded_example :: messages_iter where
  "bounded_example =
     request_iter.extend ((new_iter (Fin 10) False)\<lparr>wait_time := Some 0\<rparr>)
       \<lparr>entity = Some (InputPeerUser 1), from_id = None,
        request = no_request\<lparr>req_type := GetHistory, req_peer := Some (InputPeerUser 1),
          req_limit := Some 1, req_offset_id := Some 0, req_add_offset := Some 0\<rparr>,
        add_offset = 0, max_id = Fin 0, min_id = 100, last_id = Infinity\<rparr>"

section \<open>Properties\<close>

lemma bind_Return [simp]: "bind (tr, Return a) f = (case f a of (tr', r) \<Rightarrow> (tr @ tr', r))"
  by (simp add: bind_def)

lemma bind_Raise [simp]: "bind (tr, Raise e) f = (tr, Raise e)"
  by (simp add: bind_def)

lemma bind_Stop [simp]: "bind (tr, Stop t) f = (tr, Stop t)"
  by (simp add: bind_def)

lemmas ex_defs = new_iter_def demo_client_def default_kwargs_def chat_def photos_def
  answering_def rejecting_client_def ids_example_def msg_def request_iter.extend_def
  MAX_CHUNK_SIZE_def

lemmas init_defs = MessagesIter_init_def init_entity_def init_window_def
  init_reverse_offset_def init_from_user_def init_request_def init_total_def
  init_add_offset_def await_def no_request_def getattr_count_def

lemmas chunk_defs = MessagesIter_load_next_chunk_def chunk_request_def message_in_range_def
  update_offset_def await_def

subsection \<open>Construction, phase by phase\<close>

lemma bind_eq_Return:
  "bind m f = (tr, Return b) \<longleftrightarrow>
     (\<exists>tr1 a tr2. m = (tr1, Return a) \<and> f a = (tr2, Return b) \<and> tr = tr1 @ tr2)"
proof (cases m)
  case (Pair t r)
  then show ?thesis by (cases r) (auto split: prod.splits)
qed

lemma bind_eq_Stop:
  "bind m f = (tr, Stop t) \<longleftrightarrow>
     m = (tr, Stop t) \<or> (\<exists>tr1 a tr2. m = (tr1, Return a) \<and> f a = (tr2, Stop t) \<and> tr = tr1 @ tr2)"
proof (cases m)
  case (Pair t r)
  then show ?thesis by (cases r) (auto split: prod.splits)
qed

lemma bind_eq:
  "bind m f = (tr, out) \<longleftrightarrow>
     (\<exists>tr1 a tr2. m = (tr1, Return a) \<and> f a = (tr2, out) \<and> tr = tr1 @ tr2)
     \<or> (\<exists>e. m = (tr, Raise e) \<and> out = Raise e)
     \<or> (\<exists>t. m = (tr, Stop t) \<and> out = Stop t)"
proof (cases m)
  case (Pair t r)
  then show ?thesis by (cases r) (auto split: prod.splits)
qed

lemma sent_append [simp]: "sent (xs @ ys) = sent xs @ sent ys"
  by (induction xs rule: sent.induct) simp_all

lemma init_window_eq:
  "init_window t rv (kw_offset_id kw) (kw_min_id kw) (kw_max_id kw) =
     (if window_collapsed rv kw then ([], Stop t)
      else ([], Return (anchor_offset rv kw,
                        if rv \<and> kw_max_id kw = 0 then Infinity else Fin (kw_max_id kw))))"
  by (simp add: init_window_def window_collapsed_def anchor_offset_def Let_def)

lemma init_entity_cases:
  "init_entity cl rv ent = (tr, out) \<Longrightarrow>
     sent tr = [] \<and> (\<forall>e. out = Return e \<longrightarrow> (e \<noteq> None) = truthy_entity ent)"
  by (auto simp: init_entity_def await_def split: if_splits sum.splits)

lemma init_from_user_cases:
  "init_from_user cl fu = (tr, out) \<Longrightarrow>
     sent tr = [] \<and> (\<forall>p f. out = Return (p, f) \<longrightarrow> (p \<noteq> None) = truthy_entity fu)"
  by (auto simp: init_from_user_def await_def split: if_splits sum.splits)

lemma init_request_sent:
  "init_request cl ent raw fu fid oid od ao flt se rt sc = (tr, out) \<Longrightarrow> sent tr = []"
  by (auto simp: init_request_def await_def bind_eq Let_def split: if_splits sum.splits)

lemma init_total_eq:
  "init_total cl rq =
     ([Call rq], case call cl rq of Inl e \<Rightarrow> Raise e | Inr r \<Rightarrow> Return (reported_total r))"
  by (auto simp: init_total_def await_def getattr_count_def reported_total_def
      split: sum.splits response.splits)

lemma init_entity_no_Stop: "init_entity cl rv ent \<noteq> (tr, Stop t)"
  by (auto simp: init_entity_def await_def split: if_splits sum.splits)

lemma init_from_user_no_Stop: "init_from_user cl fu \<noteq> (tr, Stop t)"
  by (auto simp: init_from_user_def await_def bind_eq_Stop split: if_splits sum.splits)

lemma init_request_no_Stop:
  "init_request cl ent raw fu fid oid od ao flt se rt sc \<noteq> (tr, Stop t)"
  by (auto simp: init_request_def await_def bind_eq_Stop Let_def split: if_splits sum.splits)

text \<open>Construction once the request is there (lines 156-176).\<close>

lemma init_after_request:
  assumes "init_entity cl (reverse it) (kw_entity kw) = (tr1, Return ent0)"
    and "\<not> window_collapsed (reverse it) kw"
    and "init_from_user cl (kw_from_user kw) = (tr2, Return (from_user, fid))"
    and "init_request cl (if ent0 = None \<and> from_user \<noteq> None then Some InputPeerEmpty else ent0)
           (kw_entity kw) from_user fid
           (init_reverse_offset (reverse it) (anchor_offset (reverse it) kw) (kw_offset_date kw))
           (kw_offset_date kw) (kw_add_offset kw) (init_filter (kw_filter kw)) (kw_search kw)
           (kw_reply_to kw) (kw_scheduled kw) = (tr3, Return (rq, fid1))"
  shows "MessagesIter_init cl it kw =
     (if num_le (limit it) (Fin 0)
      then (tr1 @ tr2 @ tr3 @ [Call rq],
            case call cl rq of
              Inl e \<Rightarrow> Raise e
            | Inr r \<Rightarrow> Stop (Some (reported_total r)))
      else if reverse it \<and> req_add_offset rq = None
      then (tr1 @ tr2 @ tr3, Raise AttributeError)
      else (tr1 @ tr2 @ tr3, Return
        (request_iter.extend
           (it\<lparr>wait_time := (case wait_time it of
               None \<Rightarrow> Some (if num_less (Fin 3000) (limit it) then 1 else 0)
             | Some w \<Rightarrow> Some w)\<rparr>)
           \<lparr>entity = (if ent0 = None \<and> from_user \<noteq> None then Some InputPeerEmpty else ent0),
            from_id = fid1,
            request = (if reverse it
                       then rq\<lparr>req_add_offset := Some (the (req_add_offset rq) - MAX_CHUNK_SIZE)\<rparr>
                       else rq),
            add_offset = kw_add_offset kw,
            max_id = (if reverse it \<and> kw_max_id kw = 0 then Infinity else Fin (kw_max_id kw)),
            min_id = kw_min_id kw,
            last_id = (if reverse it then Fin 0 else Infinity)\<rparr>)))"
proof (cases "num_le (limit it) (Fin 0)")
  case True
  with assms show ?thesis
    by (simp add: MessagesIter_init_def init_window_eq init_total_eq Let_def split: sum.splits)
next
  case False
  with assms show ?thesis
    by (simp add: MessagesIter_init_def init_window_eq init_add_offset_def Let_def
        split: option.splits)
qed

text \<open>How construction can end: before the request is there, or after.\<close>

lemma init_cases [consumes 1, case_names early late]:
  assumes i: "MessagesIter_init cl it kw = (tr, out)"
  obtains
    (early) "sent tr = []"
      "(\<exists>e. out = Raise e) \<or> (window_collapsed (reverse it) kw \<and> out = Stop (total_count it))"
  | (late) tr1 ent0 tr2 from_user fid tr3 rq fid1 where
      "init_entity cl (reverse it) (kw_entity kw) = (tr1, Return ent0)"
      "\<not> window_collapsed (reverse it) kw"
      "init_from_user cl (kw_from_user kw) = (tr2, Return (from_user, fid))"
      "init_request cl (if ent0 = None \<and> from_user \<noteq> None then Some InputPeerEmpty else ent0)
           (kw_entity kw) from_user fid
           (init_reverse_offset (reverse it) (anchor_offset (reverse it) kw) (kw_offset_date kw))
           (kw_offset_date kw) (kw_add_offset kw) (init_filter (kw_filter kw)) (kw_search kw)
           (kw_reply_to kw) (kw_scheduled kw) = (tr3, Return (rq, fid1))"
      "sent tr1 = []" "sent tr2 = []" "sent tr3 = []"
proof -
  obtain tr1 o1 where e: "init_entity cl (reverse it) (kw_entity kw) = (tr1, o1)"
    by (cases "init_entity cl (reverse it) (kw_entity kw)")
  obtain tr2 o2 where f: "init_from_user cl (kw_from_user kw) = (tr2, o2)"
    by (cases "init_from_user cl (kw_from_user kw)")
  have s1: "sent tr1 = []" using init_entity_cases [OF e] by simp
  have s2: "sent tr2 = []" using init_from_user_cases [OF f] by simp
  show ?thesis
  proof (cases o1)
    case (Raise x)
    with i e s1 have "sent tr = []" "\<exists>e. out = Raise e"
      by (auto simp: MessagesIter_init_def)
    then show ?thesis using early by blast
  next
    case (Stop x)
    with e show ?thesis by (simp add: init_entity_no_Stop)
  next
    case r1: (Return ent0)
    show ?thesis
    proof (cases "window_collapsed (reverse it) kw")
      case True
      with i e s1 r1 have "sent tr = []" "out = Stop (total_count it)"
        by (auto simp: MessagesIter_init_def init_window_eq)
      with True show ?thesis using early by blast
    next
      case nc: False
      show ?thesis
      proof (cases o2)
        case (Raise x)
        with i e f s1 s2 r1 nc have "sent tr = []" "\<exists>e. out = Raise e"
          by (auto simp: MessagesIter_init_def init_window_eq Let_def)
        then show ?thesis using early by blast
      next
        case (Stop x)
        with f show ?thesis by (simp add: init_from_user_no_Stop)
      next
        case (Return pf)
        obtain from_user fid where pf: "pf = (from_user, fid)" by (cases pf)
        let ?rq = "init_request cl
           (if ent0 = None \<and> from_user \<noteq> None then Some InputPeerEmpty else ent0)
           (kw_entity kw) from_user fid
           (init_reverse_offset (reverse it) (anchor_offset (reverse it) kw) (kw_offset_date kw))
           (kw_offset_date kw) (kw_add_offset kw) (init_filter (kw_filter kw)) (kw_search kw)
           (kw_reply_to kw) (kw_scheduled kw)"
        obtain tr3 o3 where q: "?rq = (tr3, o3)" by (cases ?rq)
        have s3: "sent tr3 = []" using init_request_sent [OF q] .
        show ?thesis
        proof (cases o3)
          case (Raise x)
          with i e f s1 s2 s3 r1 nc Return pf q have "sent tr = []" "\<exists>e. out = Raise e"
            by (auto simp: MessagesIter_init_def init_window_eq Let_def)
          then show ?thesis using early by blast
        next
          case (Stop x)
          with q show ?thesis by (simp add: init_request_no_Stop)
        next
          case r3: (Return rf)
          obtain rq fid1 where rf: "rf = (rq, fid1)" by (cases rf)
          show ?thesis
            using late [of tr1 ent0 tr2 from_user fid tr3 rq fid1] e r1 nc f Return pf q r3 rf
              s1 s2 s3 by simp
        qed
      qed
    qed
  qed
qed

text \<open>Where a phase of construction can fail.\<close>

lemma init_entity_Raise:
  "init_entity cl rv ent = (tr, Raise e) \<Longrightarrow>
     (rv \<and> \<not> truthy_entity ent \<and> e = ValueError)
     \<or> (truthy_entity ent \<and> get_input_entity cl (the ent) = Inl e)"
  by (auto simp: init_entity_def await_def bind_eq split: if_splits sum.splits)

lemma init_entity_Return:
  "init_entity cl rv ent = (tr, Return ent0) \<Longrightarrow>
     (if truthy_entity ent then \<exists>p. get_input_entity cl (the ent) = Inr p \<and> ent0 = Some p
      else ent0 = None)"
  by (auto simp: init_entity_def await_def bind_eq split: if_splits sum.splits)

lemma init_from_user_Raise:
  "init_from_user cl fu = (tr, Raise e) \<Longrightarrow>
     truthy_entity fu
     \<and> (get_input_entity cl (the fu) = Inl e
        \<or> (\<exists>q. get_input_entity cl (the fu) = Inr q \<and> get_peer_id cl q = Inl e))"
  by (auto simp: init_from_user_def await_def bind_eq split: if_splits sum.splits)

lemma init_request_Raise:
  assumes "init_request cl ent raw fu fid oid od ao flt se rt sc = (tr, Raise e)"
  shows "ent \<noteq> None \<and> \<not> sc \<and> rt = None
       \<and> (se \<noteq> None \<or> flt \<noteq> InputMessagesFilterEmpty \<or> fu \<noteq> None)
       \<and> (entity_type cl (the ent) = Inl e \<or> iter_messages cl (the ent) 1 od = Inl e)"
  using assms
  by (auto simp: init_request_def await_def bind_eq Let_def split: if_splits sum.splits)

lemma probe_offset_type [simp]: "req_type (probe_offset rq ms) = req_type rq"
  by (induction ms arbitrary: rq) simp_all

lemma probe_offset_add_offset [simp]: "req_add_offset (probe_offset rq ms) = req_add_offset rq"
  by (induction ms arbitrary: rq) simp_all


lemma init_request_type:
  assumes "init_request cl ent raw fu fid oid od ao flt se rt sc = (tr, Return (rq, fid1))"
  shows "req_type rq =
     (if ent = None then SearchGlobal
      else if sc then GetScheduledHistory
      else if rt \<noteq> None then GetReplies
      else if se \<noteq> None \<or> flt \<noteq> InputMessagesFilterEmpty \<or> fu \<noteq> None then Search
      else GetHistory)"
  using assms
  by (auto simp: init_request_def no_request_def await_def bind_eq_Return Let_def
      split: if_splits sum.splits)

lemma init_request_add_offset:
  assumes "init_request cl ent raw fu fid oid od ao flt se rt sc = (tr, Return (rq, fid1))"
  shows "req_add_offset rq = (if ent = None \<or> sc then None else Some ao)"
  using assms
  by (auto simp: init_request_def no_request_def await_def bind_eq_Return Let_def
      split: if_splits sum.splits)

lemma nonempty_filter_eq: "nonempty_filter f = (init_filter f \<noteq> InputMessagesFilterEmpty)"
  by (cases f rule: init_filter.cases) simp_all

lemma variant_of_request:
  assumes "init_entity cl rv (kw_entity kw) = (tr1, Return ent0)"
    and "init_from_user cl (kw_from_user kw) = (tr2, Return (from_user, fid))"
    and "init_request cl (if ent0 = None \<and> from_user \<noteq> None then Some InputPeerEmpty else ent0)
           (kw_entity kw) from_user fid oid (kw_offset_date kw) (kw_add_offset kw)
           (init_filter (kw_filter kw)) (kw_search kw) (kw_reply_to kw) (kw_scheduled kw) =
         (tr3, Return (rq, fid1))"
  shows "variant_of (req_type rq) = spec_variant kw"
proof -
  have a: "(ent0 \<noteq> None) = truthy_entity (kw_entity kw)"
    using init_entity_cases [OF assms(1)] by simp
  have b: "(from_user \<noteq> None) = truthy_entity (kw_from_user kw)"
    using init_from_user_cases [OF assms(2)] by simp
  show ?thesis
    using a b by (auto simp: init_request_type [OF assms(3)] spec_variant_def nonempty_filter_eq)
qed

lemma global_search_entity:
  assumes i: "MessagesIter_init cl it kw = (tr, Return st)"
    and a: "\<not> truthy_entity (kw_entity kw)" "\<not> truthy_entity (kw_from_user kw)"
  shows "entity st = None"
  using i
proof (cases rule: init_cases)
  case early
  then show ?thesis by simp
next
  case (late tr1 ent0 tr2 from_user fid tr3 rq fid1)
  have "ent0 = None" using init_entity_cases [OF late(1)] a by auto
  moreover have "from_user = None" using init_from_user_cases [OF late(3)] a by auto
  ultimately show ?thesis
    using i unfolding init_after_request [OF late(1-4)]
    by (auto simp: request_iter.extend_def split: if_splits sum.splits)
qed

lemma init_global_example:
  "MessagesIter_init demo_client (new_iter (Fin 30) False) (default_kwargs\<lparr>kw_min_id := 6\<rparr>) =
     ([], Return global_example)"
  by (simp add: init_defs ex_defs global_example_def Let_def)






lemma init_Return_state:
  assumes i: "MessagesIter_init cl it kw = (tr, Return st)"
  shows "(entity st \<noteq> None) = (truthy_entity (kw_entity kw) \<or> truthy_entity (kw_from_user kw))
       \<and> reverse st = reverse it \<and> min_id st = kw_min_id kw
       \<and> max_id st = (if reverse it \<and> kw_max_id kw = 0 then Infinity else Fin (kw_max_id kw))
       \<and> last_id st = (if reverse it then Fin 0 else Infinity)"
  using i
proof (cases rule: init_cases)
  case early
  then show ?thesis by simp
next
  case (late tr1 ent0 tr2 from_user fid tr3 rq fid1)
  have e: "(ent0 \<noteq> None) = truthy_entity (kw_entity kw)"
    using init_entity_cases [OF late(1)] by simp
  have f: "(from_user \<noteq> None) = truthy_entity (kw_from_user kw)"
    using init_from_user_cases [OF late(3)] by simp
  from i e f show ?thesis
    unfolding init_after_request [OF late(1-4)]
    by (auto simp: request_iter.extend_def split: if_splits sum.splits)
qed






lemma init_bounded_example:
  "MessagesIter_init demo_client (new_iter (Fin 10) False)
     (default_kwargs\<lparr>kw_entity := chat, kw_min_id := 100\<rparr>) =
     ([GetInputEntity (EntityId 5)], Return bounded_example)"
  by (simp add: init_defs ex_defs bounded_example_def Let_def)

subsection \<open>Chunks\<close>

lemma chunk_request_reverse:
  assumes "reverse st" and "req_add_offset (request st) = Some (add_offset st - MAX_CHUNK_SIZE)"
  shows "req_limit (chunk_request st) = Some (num_min (left st) MAX_CHUNK_SIZE)
       \<and> req_add_offset (chunk_request st) = Some (add_offset st - num_min (left st) MAX_CHUNK_SIZE)"
  using assms by (simp add: chunk_request_def Let_def)


lemma not_num_le_Fin: "(\<not> num_le a (Fin b)) = num_less (Fin b) a"
  by (cases a) auto

lemma not_Fin_num_le: "(\<not> num_le (Fin b) a) = num_less a (Fin b)"
  by (cases a) auto

lemma num_less_trans_Fin:
  "x \<le> y \<Longrightarrow> num_less (Fin y) a \<Longrightarrow> num_less (Fin x) a"
  by (cases a) auto

lemma num_less_Fin_trans:
  "num_less a (Fin x) \<Longrightarrow> x \<le> y \<Longrightarrow> num_less a (Fin y)"
  by (cases a) auto

lemma scan_frame:
  "scan_messages st ms = (st', b) \<Longrightarrow>
     entity st' = entity st \<and> reverse st' = reverse st \<and> min_id st' = min_id st
     \<and> max_id st' = max_id st \<and> request st' = request st"
  by (induction ms arbitrary: st) (auto split: if_splits)

lemma scan_forward:
  assumes "entity st \<noteq> None" and "\<not> reverse st" and "scan_messages st ms = (st', b)"
  shows "\<exists>new. buffer st' = buffer st @ new
      \<and> sorted_wrt (>) (map msg_id new)
      \<and> (\<forall>m \<in> set new. num_less (Fin (msg_id m)) (last_id st) \<and> min_id st < msg_id m)
      \<and> last_id st' = (if new = [] then last_id st else Fin (msg_id (last new)))"
  using assms
proof (induction ms arbitrary: st)
  case Nil
  then show ?case by simp
next
  case (Cons m ms)
  show ?case
  proof (cases "isinstance_MessageEmpty m
         \<or> (from_id st \<noteq> None \<and> from_id st \<noteq> Some 0 \<and> sender_id m \<noteq> from_id st)")
    case True
    with Cons.prems have "scan_messages st ms = (st', b)" by (auto split: if_splits)
    from Cons.IH [OF Cons.prems(1,2) this] show ?thesis .
  next
    case skip: False
    show ?thesis
    proof (cases "message_in_range st m")
      case False
      with skip Cons.prems have "st' = st" by (auto split: if_splits)
      then show ?thesis by simp
    next
      case True
      let ?st1 = "st\<lparr>last_id := Fin (msg_id m), buffer := buffer st @ [m]\<rparr>"
      from True Cons.prems(1,2) have r: "num_less (Fin (msg_id m)) (last_id st)" "min_id st < msg_id m"
        by (auto simp: message_in_range_def not_num_le_Fin not_Fin_num_le split: if_splits)
      from True skip Cons.prems have "scan_messages ?st1 ms = (st', b)"
        by (auto split: if_splits)
      from Cons.IH [OF _ _ this] Cons.prems(1,2) obtain new where
        n: "buffer st' = buffer ?st1 @ new" "sorted_wrt (>) (map msg_id new)"
          "\<forall>x \<in> set new. num_less (Fin (msg_id x)) (last_id ?st1) \<and> min_id ?st1 < msg_id x"
          "last_id st' = (if new = [] then last_id ?st1 else Fin (msg_id (last new)))"
        by auto
      have "\<forall>x \<in> set new. num_less (Fin (msg_id x)) (last_id st)"
      proof
        fix x assume "x \<in> set new"
        with n(3) have "msg_id x \<le> msg_id m" by auto
        then show "num_less (Fin (msg_id x)) (last_id st)"
          using r(1) by (rule num_less_trans_Fin)
      qed
      with n r show ?thesis
        by (intro exI [of _ "m # new"]) auto
    qed
  qed
qed

lemma scan_reverse:
  assumes "entity st \<noteq> None" and "reverse st" and "scan_messages st ms = (st', b)"
  shows "\<exists>new. buffer st' = buffer st @ new
      \<and> sorted_wrt (<) (map msg_id new)
      \<and> (\<forall>m \<in> set new. num_less (last_id st) (Fin (msg_id m))
            \<and> num_less (Fin (msg_id m)) (max_id st))
      \<and> last_id st' = (if new = [] then last_id st else Fin (msg_id (last new)))"
  using assms
proof (induction ms arbitrary: st)
  case Nil
  then show ?case by simp
next
  case (Cons m ms)
  show ?case
  proof (cases "isinstance_MessageEmpty m
         \<or> (from_id st \<noteq> None \<and> from_id st \<noteq> Some 0 \<and> sender_id m \<noteq> from_id st)")
    case True
    with Cons.prems have "scan_messages st ms = (st', b)" by (auto split: if_splits)
    from Cons.IH [OF Cons.prems(1,2) this] show ?thesis .
  next
    case skip: False
    show ?thesis
    proof (cases "message_in_range st m")
      case False
      with skip Cons.prems have "st' = st" by (auto split: if_splits)
      then show ?thesis by simp
    next
      case True
      let ?st1 = "st\<lparr>last_id := Fin (msg_id m), buffer := buffer st @ [m]\<rparr>"
      from True Cons.prems(1,2) have r: "num_less (last_id st) (Fin (msg_id m))"
          "num_less (Fin (msg_id m)) (max_id st)"
        by (auto simp: message_in_range_def not_num_le_Fin not_Fin_num_le split: if_splits)
      from True skip Cons.prems have "scan_messages ?st1 ms = (st', b)"
        by (auto split: if_splits)
      from Cons.IH [OF _ _ this] Cons.prems(1,2) obtain new where
        n: "buffer st' = buffer ?st1 @ new" "sorted_wrt (<) (map msg_id new)"
          "\<forall>x \<in> set new. num_less (last_id ?st1) (Fin (msg_id x))
              \<and> num_less (Fin (msg_id x)) (max_id ?st1)"
          "last_id st' = (if new = [] then last_id ?st1 else Fin (msg_id (last new)))"
        by auto
      have "\<forall>x \<in> set new. num_less (last_id st) (Fin (msg_id x))"
      proof
        fix x assume "x \<in> set new"
        with n(3) have "msg_id m \<le> msg_id x" by auto
        with r(1) show "num_less (last_id st) (Fin (msg_id x))"
          by (rule num_less_Fin_trans)
      qed
      with n r show ?thesis
        by (intro exI [of _ "m # new"]) auto
    qed
  qed
qed

lemma update_offset_request:
  "update_offset cl st m r = st\<lparr>request := request (update_offset cl st m r)\<rparr>"
  by (simp add: update_offset_def Let_def)

lemma load_next_chunk_scan:
  assumes "MessagesIter_load_next_chunk cl st = (tr, Return (st', flag))"
  shows "\<exists>c ms st3 b rq'.
      scan_messages (st\<lparr>request := chunk_request st, total_count := Some c\<rparr>) ms = (st3, b)
    \<and> st' = st3\<lparr>request := rq'\<rparr>"
proof (cases "call cl (chunk_request st)")
  case (Inl e)
  with assms show ?thesis
    by (simp add: MessagesIter_load_next_chunk_def Let_def await_def)
next
  case (Inr r)
  show ?thesis
  proof (cases "messages_of r")
    case None
    with assms Inr show ?thesis
      by (simp add: MessagesIter_load_next_chunk_def Let_def await_def)
  next
    case (Some ms)
    let ?c = "case count_of r of None \<Rightarrow> int (length ms) | Some c \<Rightarrow> c"
    let ?st2 = "st\<lparr>request := chunk_request st, total_count := Some ?c\<rparr>"
    obtain st3 b where s: "scan_messages ?st2 (if reverse st then rev ms else ms) = (st3, b)"
      by (cases "scan_messages ?st2 (if reverse st then rev ms else ms)")
    from assms Inr Some s have "st' = st3 \<or> st' = update_offset cl st3 (last (buffer st3)) r"
      by (auto simp: MessagesIter_load_next_chunk_def Let_def await_def split: if_splits)
    then have "st' = st3\<lparr>request := request st'\<rparr>"
      using update_offset_request [of cl st3 "last (buffer st3)" r] by auto
    with s show ?thesis by blast
  qed
qed

lemma chunk_forward:
  assumes "entity st \<noteq> None" and "\<not> reverse st"
    and "MessagesIter_load_next_chunk cl st = (tr, Return (st', flag))"
  shows "\<exists>new. buffer st' = buffer st @ new
      \<and> sorted_wrt (>) (map msg_id new)
      \<and> (\<forall>m \<in> set new. num_less (Fin (msg_id m)) (last_id st) \<and> min_id st < msg_id m)
      \<and> last_id st' = (if new = [] then last_id st else Fin (msg_id (last new)))
      \<and> entity st' = entity st \<and> reverse st' = reverse st \<and> min_id st' = min_id st"
proof -
  from load_next_chunk_scan [OF assms(3)] obtain c ms st3 b rq' where
    s: "scan_messages (st\<lparr>request := chunk_request st, total_count := Some c\<rparr>) ms = (st3, b)"
    and e: "st' = st3\<lparr>request := rq'\<rparr>" by blast
  from scan_forward [OF _ _ s] assms(1,2) obtain new where
    "buffer st3 = buffer st @ new" "sorted_wrt (>) (map msg_id new)"
    "\<forall>m \<in> set new. num_less (Fin (msg_id m)) (last_id st) \<and> min_id st < msg_id m"
    "last_id st3 = (if new = [] then last_id st else Fin (msg_id (last new)))"
    by auto
  with scan_frame [OF s] e show ?thesis
    by (intro exI [of _ new]) simp
qed

lemma chunk_reverse:
  assumes "entity st \<noteq> None" and "reverse st"
    and "MessagesIter_load_next_chunk cl st = (tr, Return (st', flag))"
  shows "\<exists>new. buffer st' = buffer st @ new
      \<and> sorted_wrt (<) (map msg_id new)
      \<and> (\<forall>m \<in> set new. num_less (last_id st) (Fin (msg_id m))
            \<and> num_less (Fin (msg_id m)) (max_id st))
      \<and> last_id st' = (if new = [] then last_id st else Fin (msg_id (last new)))
      \<and> entity st' = entity st \<and> reverse st' = reverse st \<and> max_id st' = max_id st"
proof -
  from load_next_chunk_scan [OF assms(3)] obtain c ms st3 b rq' where
    s: "scan_messages (st\<lparr>request := chunk_request st, total_count := Some c\<rparr>) ms = (st3, b)"
    and e: "st' = st3\<lparr>request := rq'\<rparr>" by blast
  from scan_reverse [OF _ _ s] assms(1,2) obtain new where
    "buffer st3 = buffer st @ new" "sorted_wrt (<) (map msg_id new)"
    "\<forall>m \<in> set new. num_less (last_id st) (Fin (msg_id m))
        \<and> num_less (Fin (msg_id m)) (max_id st)"
    "last_id st3 = (if new = [] then last_id st else Fin (msg_id (last new)))"
    by auto
  with scan_frame [OF s] e show ?thesis
    by (intro exI [of _ new]) simp
qed

lemma sorted_desc_last:
  "sorted_wrt (>) (xs :: int list) \<Longrightarrow> x \<in> set xs \<Longrightarrow> last xs \<le> x"
proof (induction xs)
  case Nil
  then show ?case by simp
next
  case (Cons a xs)
  show ?case
  proof (cases "xs = []")
    case True
    with Cons.prems show ?thesis by simp
  next
    case False
    then have l: "last xs \<in> set xs" by (rule last_in_set)
    from Cons.prems(1) have "\<forall>y \<in> set xs. y < a" by simp
    from bspec [OF this l] have "last xs \<le> a" by (rule less_imp_le)
    moreover have "x \<in> set xs \<Longrightarrow> last xs \<le> x" using Cons by simp
    ultimately show ?thesis using False Cons.prems(2) by (cases "x = a") simp_all
  qed
qed

lemma sorted_asc_last:
  "sorted_wrt (<) (xs :: int list) \<Longrightarrow> x \<in> set xs \<Longrightarrow> x \<le> last xs"
proof (induction xs)
  case Nil
  then show ?case by simp
next
  case (Cons a xs)
  show ?case
  proof (cases "xs = []")
    case True
    with Cons.prems show ?thesis by simp
  next
    case False
    then have l: "last xs \<in> set xs" by (rule last_in_set)
    from Cons.prems(1) have "\<forall>y \<in> set xs. a < y" by simp
    from bspec [OF this l] have "a \<le> last xs" by (rule less_imp_le)
    moreover have "x \<in> set xs \<Longrightarrow> x \<le> last xs" using Cons by simp
    ultimately show ?thesis using False Cons.prems(2) by (cases "x = a") simp_all
  qed
qed

lemma traverse_forward:
  assumes "entity st \<noteq> None" and "\<not> reverse st"
  shows "sorted_wrt (>) (map msg_id (traverse st script))
       \<and> (\<forall>m \<in> set (traverse st script).
             num_less (Fin (msg_id m)) (last_id st) \<and> min_id st < msg_id m)"
  using assms
proof (induction script arbitrary: st)
  case Nil
  then show ?case by simp
next
  case (Cons step script)
  obtain cl l where step: "step = (cl, l)" by (cases step)
  let ?st0 = "st\<lparr>buffer := [], left := l\<rparr>"
  obtain tr out where c: "MessagesIter_load_next_chunk cl ?st0 = (tr, out)"
    by (cases "MessagesIter_load_next_chunk cl ?st0")
  show ?case
  proof (cases out)
    case (Raise e)
    with step c show ?thesis by simp
  next
    case (Stop t)
    with step c show ?thesis by simp
  next
    case (Return res)
    obtain st1 flag where res: "res = (st1, flag)" by (cases res)
    from chunk_forward [of ?st0 cl tr st1 flag] c Return res Cons.prems obtain new where
      n: "buffer st1 = new" "sorted_wrt (>) (map msg_id new)"
        "\<forall>m \<in> set new. num_less (Fin (msg_id m)) (last_id st) \<and> min_id st < msg_id m"
        "last_id st1 = (if new = [] then last_id st else Fin (msg_id (last new)))"
        "entity st1 \<noteq> None" "\<not> reverse st1" "min_id st1 = min_id st"
      by auto
    show ?thesis
    proof (cases flag)
      case True
      with step c Return res n show ?thesis by simp
    next
      case False
      let ?rest = "traverse st1 script"
      from Cons.IH [OF n(5,6)] have
        r: "sorted_wrt (>) (map msg_id ?rest)"
          "\<forall>m \<in> set ?rest. num_less (Fin (msg_id m)) (last_id st1) \<and> min_id st < msg_id m"
        using n(7) by simp_all
      have below: "\<forall>x \<in> set new. \<forall>y \<in> set ?rest. msg_id y < msg_id x"
      proof (intro ballI)
        fix x y assume x: "x \<in> set new" and y: "y \<in> set ?rest"
        then have "new \<noteq> []" by auto
        with n(4) r(2) y have "msg_id y < msg_id (last new)" by auto
        moreover have "msg_id (last new) \<le> msg_id x"
          using sorted_desc_last [OF n(2), of "msg_id x"] x \<open>new \<noteq> []\<close>
          by (simp add: last_map)
        ultimately show "msg_id y < msg_id x" by simp
      qed
      have old: "\<forall>y \<in> set ?rest. num_less (Fin (msg_id y)) (last_id st)"
      proof
        fix y assume y: "y \<in> set ?rest"
        show "num_less (Fin (msg_id y)) (last_id st)"
        proof (cases "new = []")
          case True
          with n(4) r(2) y show ?thesis by simp
        next
          case False
          with n(4) r(2) y have "msg_id y \<le> msg_id (last new)" by auto
          moreover from False n(3) have "num_less (Fin (msg_id (last new))) (last_id st)"
            by simp
          ultimately show ?thesis by (rule num_less_trans_Fin)
        qed
      qed
      have "traverse st (step # script) = new @ ?rest"
        using step c Return res False n(1) by simp
      with n r below old show ?thesis
        by (auto simp: sorted_wrt_append)
    qed
  qed
qed

lemma traverse_reverse:
  assumes "entity st \<noteq> None" and "reverse st"
  shows "sorted_wrt (<) (map msg_id (traverse st script))
       \<and> (\<forall>m \<in> set (traverse st script).
             num_less (last_id st) (Fin (msg_id m)) \<and> num_less (Fin (msg_id m)) (max_id st))"
  using assms
proof (induction script arbitrary: st)
  case Nil
  then show ?case by simp
next
  case (Cons step script)
  obtain cl l where step: "step = (cl, l)" by (cases step)
  let ?st0 = "st\<lparr>buffer := [], left := l\<rparr>"
  obtain tr out where c: "MessagesIter_load_next_chunk cl ?st0 = (tr, out)"
    by (cases "MessagesIter_load_next_chunk cl ?st0")
  show ?case
  proof (cases out)
    case (Raise e)
    with step c show ?thesis by simp
  next
    case (Stop t)
    with step c show ?thesis by simp
  next
    case (Return res)
    obtain st1 flag where res: "res = (st1, flag)" by (cases res)
    from chunk_reverse [of ?st0 cl tr st1 flag] c Return res Cons.prems obtain new where
      n: "buffer st1 = new" "sorted_wrt (<) (map msg_id new)"
        "\<forall>m \<in> set new. num_less (last_id st) (Fin (msg_id m))
            \<and> num_less (Fin (msg_id m)) (max_id st)"
        "last_id st1 = (if new = [] then last_id st else Fin (msg_id (last new)))"
        "entity st1 \<noteq> None" "reverse st1" "max_id st1 = max_id st"
      by auto
    show ?thesis
    proof (cases flag)
      case True
      with step c Return res n show ?thesis by simp
    next
      case False
      let ?rest = "traverse st1 script"
      from Cons.IH [OF n(5,6)] have
        r: "sorted_wrt (<) (map msg_id ?rest)"
          "\<forall>m \<in> set ?rest. num_less (last_id st1) (Fin (msg_id m))
              \<and> num_less (Fin (msg_id m)) (max_id st)"
        using n(7) by simp_all
      have below: "\<forall>x \<in> set new. \<forall>y \<in> set ?rest. msg_id x < msg_id y"
      proof (intro ballI)
        fix x y assume x: "x \<in> set new" and y: "y \<in> set ?rest"
        then have "new \<noteq> []" by auto
        with n(4) r(2) y have "msg_id (last new) < msg_id y" by auto
        moreover have "msg_id x \<le> msg_id (last new)"
          using sorted_asc_last [OF n(2), of "msg_id x"] x \<open>new \<noteq> []\<close>
          by (simp add: last_map)
        ultimately show "msg_id x < msg_id y" by simp
      qed
      have old: "\<forall>y \<in> set ?rest. num_less (last_id st) (Fin (msg_id y))"
      proof
        fix y assume y: "y \<in> set ?rest"
        show "num_less (last_id st) (Fin (msg_id y))"
        proof (cases "new = []")
          case True
          with n(4) r(2) y show ?thesis by simp
        next
          case False
          with n(4) r(2) y have "msg_id (last new) \<le> msg_id y" by auto
          moreover from False n(3) have "num_less (last_id st) (Fin (msg_id (last new)))"
            by simp
          ultimately show ?thesis by (rule num_less_Fin_trans [rotated])
        qed
      qed
      have "traverse st (step # script) = new @ ?rest"
        using step c Return res False n(1) by simp
      with n r below old show ?thesis
        by (auto simp: sorted_wrt_append)
    qed
  qed
qed

subsection \<open>The lookup by identifiers\<close>

text \<open>
  C1. The claim: a lookup of N identifiers yields N slots, with an absent marker where
  the service left a message out. The loop of lines 313-318 walks the returned messages
  only: constructed for 10, 11 and 12 and answered with the messages 10 and 12, the
  first chunk fills two slots, and nothing stands for 11.
\<close>

theorem ids_lookup_omitted_message:
  "bind (IDsIter_init demo_client (new_iter (Fin 3) False) None [10, 11, 12])
     (IDsIter_load_next_chunk demo_client) =
     ([CallIds (MessagesGetMessages [10, 11, 12])],
      Return ((ids_example None None)
                \<lparr>p_offset := 100, buffer := [Some (msg 10), Some (msg 12)]\<rparr>))"
  by (simp add: IDsIter_init_def IDsIter_load_next_chunk_def ex_defs await_def Let_def)

text \<open>
  C6, as amended. When the peer is a channel, a batch that the service rejects with
  \<^verbatim>\<open>MessageIdsEmptyError\<close> is not an error: the chunk ends normally with one absent marker
  for each identifier of the batch. For any other peer, and without one, the lookup is
  not guarded and the rejection is raised.
\<close>

theorem empty_batch_only_caught_in_channels:
  assumes "take (nat MAX_CHUNK_SIZE) (drop (p_offset st) (p_ids st)) = ids" and "ids \<noteq> []"
  shows "(p_ty st = Some CHANNEL
          \<and> call_ids cl (ChannelsGetMessages (p_entity st) ids) = Inl MessageIdsEmptyError \<longrightarrow>
          IDsIter_load_next_chunk cl st =
            ([CallIds (ChannelsGetMessages (p_entity st) ids)],
             Return (st\<lparr>p_offset := p_offset st + nat MAX_CHUNK_SIZE,
                        buffer := buffer st @ replicate (length ids) None\<rparr>)))
       \<and> (p_ty st \<noteq> Some CHANNEL
          \<and> call_ids cl (MessagesGetMessages ids) = Inl MessageIdsEmptyError \<longrightarrow>
          IDsIter_load_next_chunk cl st =
            ([CallIds (MessagesGetMessages ids)], Raise MessageIdsEmptyError))"
  using assms
  by (simp add: IDsIter_load_next_chunk_def Let_def map_replicate_const await_def)

theorem empty_batch_only_caught_in_channels_witness:
  "take (nat MAX_CHUNK_SIZE) (drop 0 [10, 11, 12 :: int]) = [10, 11, 12]
   \<and> IDsIter_load_next_chunk rejecting_client
       (ids_example (Some (InputPeerChannel 7)) (Some CHANNEL)) =
       ([CallIds (ChannelsGetMessages (Some (InputPeerChannel 7)) [10, 11, 12])],
        Return ((ids_example (Some (InputPeerChannel 7)) (Some CHANNEL))
                  \<lparr>p_offset := 100, buffer := [None, None, None]\<rparr>))
   \<and> IDsIter_load_next_chunk rejecting_client (ids_example (Some (InputPeerChat 3)) (Some CHAT)) =
       ([CallIds (MessagesGetMessages [10, 11, 12])], Raise MessageIdsEmptyError)"
  using empty_batch_only_caught_in_channels
    [of "ids_example (Some (InputPeerChannel 7)) (Some CHANNEL)" "[10, 11, 12]" rejecting_client]
    empty_batch_only_caught_in_channels
    [of "ids_example (Some (InputPeerChat 3)) (Some CHAT)" "[10, 11, 12]" rejecting_client]
  by (simp add: ex_defs)

text \<open>
  C6 as stated fails outside channels: the lookup of line 294 is not inside the
  \<^verbatim>\<open>try\<close>, and the same rejection reaches the caller.
\<close>

theorem empty_batch_uncaught_outside_channels:
  "IDsIter_load_next_chunk rejecting_client (ids_example (Some (InputPeerUser 1)) (Some USER)) =
     ([CallIds (MessagesGetMessages [10, 11, 12])], Raise MessageIdsEmptyError)"
  by (simp add: IDsIter_load_next_chunk_def ex_defs await_def Let_def)

subsection \<open>Construction of the range iterator\<close>

text \<open>
  C9, as amended. A reverse traversal without a target peer raises \<^verbatim>\<open>ValueError\<close> at
  construction, before any call of the client. A collapsed window (the anchor offset and
  the opposite bound both set and at most one apart) raises nothing of its own:
  construction sends no request and ends the iteration, unless that \<^verbatim>\<open>ValueError\<close> or a
  failure of resolving the target peer came first.
\<close>

theorem construction_errors:
  "(reverse it \<and> \<not> truthy_entity (kw_entity kw) \<longrightarrow>
      MessagesIter_init cl it kw = ([], Raise ValueError))
   \<and> (window_collapsed (reverse it) kw \<and> MessagesIter_init cl it kw = (tr, out) \<longrightarrow>
      sent tr = []
      \<and> (out = Stop (total_count it)
          \<or> (reverse it \<and> \<not> truthy_entity (kw_entity kw) \<and> out = Raise ValueError)
          \<or> (\<exists>e. truthy_entity (kw_entity kw)
                \<and> get_input_entity cl (the (kw_entity kw)) = Inl e \<and> out = Raise e)))"
proof (intro conjI impI)
  assume "reverse it \<and> \<not> truthy_entity (kw_entity kw)"
  then show "MessagesIter_init cl it kw = ([], Raise ValueError)"
    by (simp add: MessagesIter_init_def init_entity_def)
next
  assume a: "window_collapsed (reverse it) kw \<and> MessagesIter_init cl it kw = (tr, out)"
  then show "sent tr = []"
    by (cases "get_input_entity cl (the (kw_entity kw))")
      (auto simp: MessagesIter_init_def init_entity_def init_window_eq await_def
        split: if_splits)
  from a show "out = Stop (total_count it)
      \<or> (reverse it \<and> \<not> truthy_entity (kw_entity kw) \<and> out = Raise ValueError)
      \<or> (\<exists>e. truthy_entity (kw_entity kw)
            \<and> get_input_entity cl (the (kw_entity kw)) = Inl e \<and> out = Raise e)"
    by (cases "get_input_entity cl (the (kw_entity kw))")
      (auto simp: MessagesIter_init_def init_entity_def init_window_eq await_def
        split: if_splits)
qed

theorem construction_errors_witness:
  "reverse (new_iter (Fin 10) True :: tl_message request_iter)
   \<and> \<not> truthy_entity (kw_entity default_kwargs)
   \<and> MessagesIter_init demo_client (new_iter (Fin 10) True) default_kwargs =
       ([], Raise ValueError)
   \<and> window_collapsed False (default_kwargs\<lparr>kw_min_id := 7, kw_offset_id := 8\<rparr>)
   \<and> MessagesIter_init demo_client (new_iter (Fin 10) False)
       (default_kwargs\<lparr>kw_min_id := 7, kw_offset_id := 8\<rparr>) = ([], Stop None)
   \<and> window_collapsed True (default_kwargs\<lparr>kw_min_id := 100, kw_max_id := 101\<rparr>)
   \<and> MessagesIter_init demo_client (new_iter (Fin 10) True)
       (default_kwargs\<lparr>kw_min_id := 100, kw_max_id := 101\<rparr>) = ([], Raise ValueError)"
  using construction_errors [of "new_iter (Fin 10) True" default_kwargs demo_client]
    construction_errors [of "new_iter (Fin 10) False"
      "default_kwargs\<lparr>kw_min_id := 7, kw_offset_id := 8\<rparr>" demo_client
      "fst (MessagesIter_init demo_client (new_iter (Fin 10) False)
       (default_kwargs\<lparr>kw_min_id := 7, kw_offset_id := 8\<rparr>))"
      "snd (MessagesIter_init demo_client (new_iter (Fin 10) False)
       (default_kwargs\<lparr>kw_min_id := 7, kw_offset_id := 8\<rparr>))"]
    construction_errors [of "new_iter (Fin 10) True"
      "default_kwargs\<lparr>kw_min_id := 100, kw_max_id := 101\<rparr>" demo_client
      "fst (MessagesIter_init demo_client (new_iter (Fin 10) True)
       (default_kwargs\<lparr>kw_min_id := 100, kw_max_id := 101\<rparr>))"
      "snd (MessagesIter_init demo_client (new_iter (Fin 10) True)
       (default_kwargs\<lparr>kw_min_id := 100, kw_max_id := 101\<rparr>))"]
  by (simp add: init_defs ex_defs window_collapsed_def anchor_offset_def Let_def)

text \<open>
  C9 as stated fails for the collapsed window: with \<open>min_id = 100\<close> and \<open>max_id = 101\<close>
  construction resolves the peer and ends the iteration; no error is raised.
\<close>

theorem collapsed_window_is_not_an_error:
  "MessagesIter_init demo_client (new_iter (Fin 10) False)
     (default_kwargs\<lparr>kw_entity := chat, kw_min_id := 100, kw_max_id := 101\<rparr>) =
   ([GetInputEntity (EntityId 5)], Stop None)"
  by (simp add: init_defs ex_defs Let_def)

text \<open>
  C2, as amended. When the anchor offset and the opposite bound are both set and at most
  one apart, construction sends nothing to the transport and ends in one of three ways.
  A reverse traversal without a target peer raises \<^verbatim>\<open>ValueError\<close> (line 31). A target
  peer is resolved first, and a failure of that is raised. Otherwise the iteration ends
  at once, \<^verbatim>\<open>self.total\<close> left as it was.
\<close>

theorem collapsed_window_immediately_empty:
  assumes "window_collapsed (reverse it) kw"
  shows "MessagesIter_init cl it kw =
           (if truthy_entity (kw_entity kw)
            then ([GetInputEntity (the (kw_entity kw))],
                  case get_input_entity cl (the (kw_entity kw)) of
                    Inl e \<Rightarrow> Raise e
                  | Inr p \<Rightarrow> Stop (total_count it))
            else if reverse it then ([], Raise ValueError)
            else ([], Stop (total_count it)))
         \<and> sent (fst (MessagesIter_init cl it kw)) = []"
  using assms
  by (auto simp add: MessagesIter_init_def init_entity_def init_window_def
      window_collapsed_def anchor_offset_def await_def Let_def split: sum.splits)

theorem collapsed_window_immediately_empty_witness:
  "window_collapsed False
     (default_kwargs\<lparr>kw_entity := chat, kw_min_id := 100, kw_max_id := 101\<rparr>)
   \<and> MessagesIter_init demo_client (new_iter (Fin 10) False)
       (default_kwargs\<lparr>kw_entity := chat, kw_min_id := 100, kw_max_id := 101\<rparr>) =
       ([GetInputEntity (EntityId 5)], Stop None)
   \<and> sent (fst (MessagesIter_init demo_client (new_iter (Fin 10) False)
       (default_kwargs\<lparr>kw_entity := chat, kw_min_id := 100, kw_max_id := 101\<rparr>))) = []
   \<and> window_collapsed True (default_kwargs\<lparr>kw_min_id := 100, kw_max_id := 101\<rparr>)
   \<and> MessagesIter_init demo_client (new_iter (Fin 10) True)
       (default_kwargs\<lparr>kw_min_id := 100, kw_max_id := 101\<rparr>) = ([], Raise ValueError)"
  using collapsed_window_immediately_empty
    [of "new_iter (Fin 10) False"
        "default_kwargs\<lparr>kw_entity := chat, kw_min_id := 100, kw_max_id := 101\<rparr>"
        demo_client]
    collapsed_window_immediately_empty
    [of "new_iter (Fin 10) True"
        "default_kwargs\<lparr>kw_min_id := 100, kw_max_id := 101\<rparr>"
        demo_client]
  by (simp add: ex_defs window_collapsed_def anchor_offset_def)

text \<open>
  C2 as stated fails at its own example: with \<open>min_id = 100\<close> and \<open>max_id = 102\<close> the
  window still holds 101. Construction goes through, the first chunk asks for history
  below 102, and a message 101 in the answer is produced.
\<close>

theorem window_100_102_is_not_empty:
  "map_prod sent (map_result (\<lambda>(st, returned). map msg_id (buffer st)))
     (first_chunk (answering [msg 101]) (new_iter (Fin 10) False)
        (default_kwargs\<lparr>kw_entity := chat, kw_min_id := 100, kw_max_id := 102\<rparr>)) =
   ([no_request\<lparr>req_type := GetHistory, req_peer := Some (InputPeerUser 1),
       req_limit := Some 10, req_offset_id := Some 102, req_add_offset := Some 0\<rparr>],
    Return [101])"
  by (simp add: first_chunk_def init_defs ex_defs Let_def MessagesIter_load_next_chunk_def
      chunk_request_def message_in_range_def update_offset_def)

text \<open>
  C4. Construction selects the variant the precedence of the specification gives: (1) no
  target peer and no \<open>from\<close> filter, (2) scheduled, (3) \<open>replyTo\<close>, (4) a text query, a
  non-empty filter or a \<open>from\<close> filter, (5) plain history. The request it leaves in the
  iterator is of that variant, and so is every request it sends itself. Construction
  ends the iteration only on a collapsed window, with nothing sent, or for a limit of
  zero, with the one request of that variant sent. It raises only when a reverse
  traversal has no target peer, when the client fails to resolve the target peer or the
  sender, when the selected variant is the filtered search and
  \<^verbatim>\<open>helpers._entity_type\<close> or the inner iteration of lines 141-142 fails on the peer of
  the search, when the transport fails on the one request for a limit of zero, or when a
  reverse traversal of positive limit has selected the scheduled list, whose request has
  no \<^verbatim>\<open>add_offset\<close> to read (line 171).
\<close>

theorem request_variant_precedence:
  assumes i: "MessagesIter_init cl it kw = (tr, out)"
  shows "(\<forall>st. out = Return st \<longrightarrow>
            variant_of (req_type (request st)) = spec_variant kw \<and> sent tr = [])
       \<and> (\<forall>rq \<in> set (sent tr). variant_of (req_type rq) = spec_variant kw)
       \<and> (\<forall>t. out = Stop t \<longrightarrow>
            (window_collapsed (reverse it) kw \<and> sent tr = [])
            \<or> (num_le (limit it) (Fin 0) \<and> (\<exists>rq. sent tr = [rq])))
       \<and> (\<forall>e. out = Raise e \<longrightarrow>
            (reverse it \<and> \<not> truthy_entity (kw_entity kw) \<and> e = ValueError)
            \<or> (truthy_entity (kw_entity kw)
                \<and> get_input_entity cl (the (kw_entity kw)) = Inl e)
            \<or> (truthy_entity (kw_from_user kw)
                \<and> (get_input_entity cl (the (kw_from_user kw)) = Inl e
                   \<or> (\<exists>q. get_input_entity cl (the (kw_from_user kw)) = Inr q
                         \<and> get_peer_id cl q = Inl e)))
            \<or> (spec_variant kw = FilteredSearch
                \<and> (\<exists>p. selected_peer cl kw p
                      \<and> (entity_type cl p = Inl e
                         \<or> iter_messages cl p 1 (kw_offset_date kw) = Inl e)))
            \<or> (num_le (limit it) (Fin 0) \<and> (\<exists>rq. sent tr = [rq] \<and> call cl rq = Inl e))
            \<or> (\<not> num_le (limit it) (Fin 0) \<and> reverse it
                \<and> spec_variant kw = ScheduledList \<and> e = AttributeError))"
proof -
  obtain tr1 o1 where e: "init_entity cl (reverse it) (kw_entity kw) = (tr1, o1)"
    by (cases "init_entity cl (reverse it) (kw_entity kw)")
  obtain tr2 o2 where f: "init_from_user cl (kw_from_user kw) = (tr2, o2)"
    by (cases "init_from_user cl (kw_from_user kw)")
  have s1: "sent tr1 = []" using init_entity_cases [OF e] by simp
  have s2: "sent tr2 = []" using init_from_user_cases [OF f] by simp
  show ?thesis
  proof (cases o1)
    case (Raise x)
    with i e have "tr = tr1" "out = Raise x" by (auto simp: MessagesIter_init_def)
    with init_entity_Raise [of cl "reverse it" "kw_entity kw" tr1 x] e Raise s1
    show ?thesis by auto
  next
    case (Stop x)
    with e show ?thesis by (simp add: init_entity_no_Stop)
  next
    case r1: (Return ent0)
    show ?thesis
    proof (cases "window_collapsed (reverse it) kw")
      case True
      with i e s1 r1 have "sent tr = []" "out = Stop (total_count it)"
        by (auto simp: MessagesIter_init_def init_window_eq)
      with True show ?thesis by simp
    next
      case nc: False
      show ?thesis
      proof (cases o2)
        case (Raise x)
        with i e f r1 nc have "tr = tr1 @ tr2" "out = Raise x"
          by (auto simp: MessagesIter_init_def init_window_eq Let_def)
        with init_from_user_Raise [of cl "kw_from_user kw" tr2 x] f Raise s1 s2
        show ?thesis by auto
      next
        case (Stop x)
        with f show ?thesis by (simp add: init_from_user_no_Stop)
      next
        case (Return pf)
        obtain from_user fid where pf: "pf = (from_user, fid)" by (cases pf)
        let ?ent = "if ent0 = None \<and> from_user \<noteq> None then Some InputPeerEmpty else ent0"
        let ?rq = "init_request cl ?ent
           (kw_entity kw) from_user fid
           (init_reverse_offset (reverse it) (anchor_offset (reverse it) kw) (kw_offset_date kw))
           (kw_offset_date kw) (kw_add_offset kw) (init_filter (kw_filter kw)) (kw_search kw)
           (kw_reply_to kw) (kw_scheduled kw)"
        obtain tr3 o3 where q: "?rq = (tr3, o3)" by (cases ?rq)
        have s3: "sent tr3 = []" using init_request_sent [OF q] .
        have e0: "(ent0 \<noteq> None) = truthy_entity (kw_entity kw)"
          using init_entity_cases [OF e] r1 by simp
        have f0: "(from_user \<noteq> None) = truthy_entity (kw_from_user kw)"
          using init_from_user_cases [OF f] Return pf by simp
        show ?thesis
        proof (cases o3)
          case (Raise x)
          with i e f r1 nc Return pf q have t: "tr = tr1 @ tr2 @ tr3" "out = Raise x"
            by (auto simp: MessagesIter_init_def init_window_eq Let_def)
          have qr: "?rq = (tr3, Raise x)" using q Raise by simp
          from init_request_Raise [OF qr] have
            b: "?ent \<noteq> None" "\<not> kw_scheduled kw" "kw_reply_to kw = None"
              "kw_search kw \<noteq> None \<or> init_filter (kw_filter kw) \<noteq> InputMessagesFilterEmpty
                 \<or> from_user \<noteq> None"
              "entity_type cl (the ?ent) = Inl x
                 \<or> iter_messages cl (the ?ent) 1 (kw_offset_date kw) = Inl x"
            by blast+
          from b(1-4) e0 f0 have v: "spec_variant kw = FilteredSearch"
            by (auto simp: spec_variant_def nonempty_filter_eq split: if_splits)
          have p: "selected_peer cl kw (the ?ent)"
            using init_entity_Return [of cl "reverse it" "kw_entity kw" tr1 ent0] e r1 b(1) e0
            by (auto simp: selected_peer_def split: if_splits)
          from t s1 s2 s3 v p b(5) show ?thesis by auto
        next
          case (Stop x)
          with q show ?thesis by (simp add: init_request_no_Stop)
        next
          case r3: (Return rf)
          obtain rq fid1 where rf: "rf = (rq, fid1)" by (cases rf)
          have q': "?rq = (tr3, Return (rq, fid1))" using q r3 rf by simp
          have e': "init_entity cl (reverse it) (kw_entity kw) = (tr1, Return ent0)"
            using e r1 by simp
          have f': "init_from_user cl (kw_from_user kw) = (tr2, Return (from_user, fid))"
            using f Return pf by simp
          have v: "variant_of (req_type rq) = spec_variant kw"
            using variant_of_request [OF e' f' q'] .
          have ao: "req_add_offset rq = None \<Longrightarrow> reverse it \<Longrightarrow> spec_variant kw = ScheduledList"
          proof -
            assume a: "req_add_offset rq = None" and r: "reverse it"
            from r e' have "ent0 \<noteq> None"
              by (auto simp: init_entity_def await_def bind_eq_Return split: if_splits)
            with a init_request_add_offset [OF q'] have "kw_scheduled kw"
              by (auto split: if_splits)
            with \<open>ent0 \<noteq> None\<close> e0 show ?thesis by (simp add: spec_variant_def)
          qed
          from i s1 s2 s3 v ao show ?thesis
            unfolding init_after_request [OF e' nc f' q']
            by (auto simp: request_iter.extend_def split: if_splits sum.splits)
        qed
      qed
    qed
  qed
qed

theorem request_variant_precedence_witness:
  "map_result (\<lambda>st. variant_of (req_type (request st)))
     (snd (MessagesIter_init demo_client (new_iter (Fin 30) False)
        (default_kwargs\<lparr>kw_min_id := 6\<rparr>))) = Return GlobalSearch
   \<and> spec_variant (default_kwargs\<lparr>kw_min_id := 6\<rparr>) = GlobalSearch
   \<and> map_result (\<lambda>st. variant_of (req_type (request st)))
     (snd (MessagesIter_init demo_client (new_iter (Fin 30) False)
        (default_kwargs\<lparr>kw_entity := chat, kw_scheduled := True, kw_reply_to := Some 3,
           kw_search := Some ''x''\<rparr>))) = Return ScheduledList
   \<and> spec_variant (default_kwargs\<lparr>kw_entity := chat, kw_scheduled := True,
        kw_reply_to := Some 3, kw_search := Some ''x''\<rparr>) = ScheduledList
   \<and> map_result (\<lambda>st. variant_of (req_type (request st)))
     (snd (MessagesIter_init demo_client (new_iter (Fin 30) False)
        (default_kwargs\<lparr>kw_entity := chat, kw_reply_to := Some 3, kw_filter := photos\<rparr>))) =
       Return ThreadReplies
   \<and> spec_variant (default_kwargs\<lparr>kw_entity := chat, kw_reply_to := Some 3,
        kw_filter := photos\<rparr>) = ThreadReplies
   \<and> map_result (\<lambda>st. variant_of (req_type (request st)))
     (snd (MessagesIter_init demo_client (new_iter (Fin 30) False)
        (default_kwargs\<lparr>kw_entity := chat, kw_from_user := Some (EntityId 9)\<rparr>))) =
       Return FilteredSearch
   \<and> spec_variant (default_kwargs\<lparr>kw_entity := chat, kw_from_user := Some (EntityId 9)\<rparr>) =
       FilteredSearch
   \<and> map_result (\<lambda>st. variant_of (req_type (request st)))
     (snd (MessagesIter_init demo_client (new_iter (Fin 30) False)
        (default_kwargs\<lparr>kw_entity := chat\<rparr>))) = Return PlainHistory
   \<and> spec_variant (default_kwargs\<lparr>kw_entity := chat\<rparr>) = PlainHistory
   \<and> map (\<lambda>rq. variant_of (req_type rq))
       (sent (fst (MessagesIter_init demo_client (new_iter (Fin 0) False)
          (default_kwargs\<lparr>kw_entity := chat, kw_reply_to := Some 3\<rparr>)))) = [ThreadReplies]
   \<and> MessagesIter_init demo_client (new_iter (Fin 30) False)
        (default_kwargs\<lparr>kw_from_user := Some (EntityId 9)\<rparr>) =
       ([GetInputEntity (EntityId 9), GetPeerId (InputPeerUser 1)], Raise TypeError)
   \<and> spec_variant (default_kwargs\<lparr>kw_from_user := Some (EntityId 9)\<rparr>) = FilteredSearch
   \<and> selected_peer demo_client (default_kwargs\<lparr>kw_from_user := Some (EntityId 9)\<rparr>)
        InputPeerEmpty
   \<and> entity_type demo_client InputPeerEmpty = Inl TypeError"
  using
    request_variant_precedence [of demo_client "new_iter (Fin 30) False"
      "default_kwargs\<lparr>kw_min_id := 6\<rparr>"
      "fst (MessagesIter_init demo_client (new_iter (Fin 30) False)
          (default_kwargs\<lparr>kw_min_id := 6\<rparr>))"
      "snd (MessagesIter_init demo_client (new_iter (Fin 30) False)
          (default_kwargs\<lparr>kw_min_id := 6\<rparr>))"]
    request_variant_precedence [of demo_client "new_iter (Fin 30) False"
      "default_kwargs\<lparr>kw_entity := chat, kw_scheduled := True, kw_reply_to := Some 3,
           kw_search := Some ''x''\<rparr>"
      "fst (MessagesIter_init demo_client (new_iter (Fin 30) False)
          (default_kwargs\<lparr>kw_entity := chat, kw_scheduled := True, kw_reply_to := Some 3,
           kw_search := Some ''x''\<rparr>))"
      "snd (MessagesIter_init demo_client (new_iter (Fin 30) False)
          (default_kwargs\<lparr>kw_entity := chat, kw_scheduled := True, kw_reply_to := Some 3,
           kw_search := Some ''x''\<rparr>))"]
    request_variant_precedence [of demo_client "new_iter (Fin 30) False"
      "default_kwargs\<lparr>kw_entity := chat, kw_reply_to := Some 3, kw_filter := photos\<rparr>"
      "fst (MessagesIter_init demo_client (new_iter (Fin 30) False)
          (default_kwargs\<lparr>kw_entity := chat, kw_reply_to := Some 3, kw_filter := photos\<rparr>))"
      "snd (MessagesIter_init demo_client (new_iter (Fin 30) False)
          (default_kwargs\<lparr>kw_entity := chat, kw_reply_to := Some 3, kw_filter := photos\<rparr>))"]
    request_variant_precedence [of demo_client "new_iter (Fin 30) False"
      "default_kwargs\<lparr>kw_entity := chat, kw_from_user := Some (EntityId 9)\<rparr>"
      "fst (MessagesIter_init demo_client (new_iter (Fin 30) False)
          (default_kwargs\<lparr>kw_entity := chat, kw_from_user := Some (EntityId 9)\<rparr>))"
      "snd (MessagesIter_init demo_client (new_iter (Fin 30) False)
          (default_kwargs\<lparr>kw_entity := chat, kw_from_user := Some (EntityId 9)\<rparr>))"]
    request_variant_precedence [of demo_client "new_iter (Fin 30) False"
      "default_kwargs\<lparr>kw_entity := chat\<rparr>"
      "fst (MessagesIter_init demo_client (new_iter (Fin 30) False)
          (default_kwargs\<lparr>kw_entity := chat\<rparr>))"
      "snd (MessagesIter_init demo_client (new_iter (Fin 30) False)
          (default_kwargs\<lparr>kw_entity := chat\<rparr>))"]
    request_variant_precedence [of demo_client "new_iter (Fin 0) False"
      "default_kwargs\<lparr>kw_entity := chat, kw_reply_to := Some 3\<rparr>"
      "fst (MessagesIter_init demo_client (new_iter (Fin 0) False)
          (default_kwargs\<lparr>kw_entity := chat, kw_reply_to := Some 3\<rparr>))"
      "snd (MessagesIter_init demo_client (new_iter (Fin 0) False)
          (default_kwargs\<lparr>kw_entity := chat, kw_reply_to := Some 3\<rparr>))"]
    request_variant_precedence [of demo_client "new_iter (Fin 30) False"
      "default_kwargs\<lparr>kw_from_user := Some (EntityId 9)\<rparr>"
      "fst (MessagesIter_init demo_client (new_iter (Fin 30) False)
          (default_kwargs\<lparr>kw_from_user := Some (EntityId 9)\<rparr>))"
      "snd (MessagesIter_init demo_client (new_iter (Fin 30) False)
          (default_kwargs\<lparr>kw_from_user := Some (EntityId 9)\<rparr>))"]
  by (simp add: init_defs ex_defs spec_variant_def selected_peer_def Let_def)




subsection \<open>The range check\<close>

text \<open>
  C10. Without \<^verbatim>\<open>self.entity\<close> the range check accepts every message; and an iterator
  constructed with no target peer and no \<open>from\<close> filter has none, so that neither its
  bounds nor \<^verbatim>\<open>last_id\<close> reject anything.
\<close>

theorem global_search_accepts_every_message:
  "(entity st = None \<longrightarrow> message_in_range st message)
   \<and> (\<not> truthy_entity (kw_entity kw) \<and> \<not> truthy_entity (kw_from_user kw)
        \<and> MessagesIter_init cl it kw = (tr, Return st')
      \<longrightarrow> entity st' = None \<and> message_in_range st' message)"
  using global_search_entity [of cl it kw tr st']
  by (auto simp: message_in_range_def)

theorem global_search_accepts_every_message_witness:
  "\<not> truthy_entity (kw_entity (default_kwargs\<lparr>kw_min_id := 6\<rparr>))
   \<and> \<not> truthy_entity (kw_from_user (default_kwargs\<lparr>kw_min_id := 6\<rparr>))
   \<and> MessagesIter_init demo_client (new_iter (Fin 30) False) (default_kwargs\<lparr>kw_min_id := 6\<rparr>) =
       ([], Return global_example)
   \<and> min_id global_example = 6
   \<and> entity global_example = None
   \<and> message_in_range global_example (msg 5)"
  using global_search_accepts_every_message
    [of global_example "msg 5" "default_kwargs\<lparr>kw_min_id := 6\<rparr>" demo_client
        "new_iter (Fin 30) False" "[]" global_example]
    init_global_example
  by (simp add: default_kwargs_def global_example_def request_iter.extend_def)

text \<open>
  C3, as amended. When the iterator has a peer (a target peer or a \<open>from\<close> filter was
  given), the items its chunks buffer have strictly decreasing identifiers in forward
  mode, each below \<^verbatim>\<open>last_id\<close> and above \<^verbatim>\<open>min_id\<close>, and strictly increasing ones in
  reverse mode, each above \<^verbatim>\<open>last_id\<close> and below \<^verbatim>\<open>max_id\<close>; construction sets these
  to the caller's bounds and to infinity or zero.
\<close>

theorem produced_ids_monotone_within_bounds:
  "(entity st \<noteq> None \<longrightarrow>
      (if reverse st
       then sorted_wrt (<) (map msg_id (traverse st script))
            \<and> (\<forall>m \<in> set (traverse st script).
                  num_less (last_id st) (Fin (msg_id m)) \<and> num_less (Fin (msg_id m)) (max_id st))
       else sorted_wrt (>) (map msg_id (traverse st script))
            \<and> (\<forall>m \<in> set (traverse st script).
                  num_less (Fin (msg_id m)) (last_id st) \<and> min_id st < msg_id m)))
   \<and> (MessagesIter_init cl it kw = (tr, Return st')
        \<and> (truthy_entity (kw_entity kw) \<or> truthy_entity (kw_from_user kw)) \<longrightarrow>
      entity st' \<noteq> None \<and> reverse st' = reverse it \<and> min_id st' = kw_min_id kw
      \<and> max_id st' = (if reverse it \<and> kw_max_id kw = 0 then Infinity else Fin (kw_max_id kw))
      \<and> last_id st' = (if reverse it then Fin 0 else Infinity))"
  using traverse_forward [of st script] traverse_reverse [of st script]
    init_Return_state [of cl it kw tr st']
  by (simp split del: if_split) auto

theorem produced_ids_monotone_within_bounds_witness:
  "MessagesIter_init demo_client (new_iter (Fin 10) False)
     (default_kwargs\<lparr>kw_entity := chat, kw_min_id := 100\<rparr>) =
     ([GetInputEntity (EntityId 5)], Return bounded_example)
   \<and> truthy_entity (kw_entity (default_kwargs\<lparr>kw_entity := chat, kw_min_id := 100\<rparr>))
   \<and> entity bounded_example \<noteq> None \<and> \<not> reverse bounded_example
   \<and> min_id bounded_example = 100 \<and> last_id bounded_example = Infinity
   \<and> map msg_id (traverse bounded_example
        [(answering [msg 105, msg 103, msg 100, msg 99], Fin 10)]) = [105, 103]
   \<and> sorted_wrt (>) (map msg_id (traverse bounded_example
        [(answering [msg 105, msg 103, msg 100, msg 99], Fin 10)]))"
  using produced_ids_monotone_within_bounds
    [of bounded_example "[(answering [msg 105, msg 103, msg 100, msg 99], Fin 10)]"
        demo_client "new_iter (Fin 10) False"
        "default_kwargs\<lparr>kw_entity := chat, kw_min_id := 100\<rparr>"
        "[GetInputEntity (EntityId 5)]" bounded_example]
    init_bounded_example
  by (simp add: ex_defs bounded_example_def chunk_defs no_request_def Let_def)

text \<open>
  C3 as stated fails for a global search: nothing is checked, and the answer 5, 7 is
  produced as it comes, out of order and below \<open>min_id = 6\<close>.
\<close>

theorem global_search_ids_are_unordered:
  "MessagesIter_init demo_client (new_iter (Fin 30) False) (default_kwargs\<lparr>kw_min_id := 6\<rparr>) =
     ([], Return global_example)
   \<and> map msg_id (traverse global_example [(answering [msg 5, msg 7], Fin 30)]) = [5, 7]
   \<and> \<not> sorted_wrt (>) (map msg_id (traverse global_example [(answering [msg 5, msg 7], Fin 30)]))"
  using init_global_example
  by (simp add: ex_defs global_example_def chunk_defs no_request_def Let_def)

subsection \<open>Offsets in reverse, and the date of a filtered search\<close>







end
